theory Spec2Isabelle
  imports Complex_Main "HOL-Library.Log_Nat"
begin

section \<open>JavaScript numbers\<close>

text \<open>
  Every number of the program is an IEEE 754 binary64 value: the retry count and the
  delay of the options, the attempt counter and the delay handed to \<open>setTimeout\<close>.  A
  finite value is given by the rational it denotes, zero carries a sign, and there are
  the two infinities and NaN.  The results of \<open>+\<close> and \<open>*\<close> are rounded to the nearest
  representable value, ties to the even significand; \<open>round64\<close> is that rounding, with
  53 bits of precision, least exponent \<open>-1022\<close>, gradual underflow and overflow to
  infinity.  Its first argument is the sign given to a zero result.
\<close>

datatype number = NaN | PosInf | NegInf | NegZero | Finite rat

definition jsnum :: "int \<Rightarrow> number" where
  "jsnum i = Finite (of_int i)"

definition ilog2 :: "rat \<Rightarrow> int" where
  "ilog2 a = (if 1 \<le> a then bitlen \<lfloor>a\<rfloor> - 1 else - bitlen (\<lceil>1 / a\<rceil> - 1))"

definition round_half_even :: "rat \<Rightarrow> int" where
  "round_half_even x =
     (let f = \<lfloor>x\<rfloor>; r = x - of_int f
      in if r < 1 / 2 then f else if 1 / 2 < r then f + 1 else if even f then f else f + 1)"

definition round64 :: "bool \<Rightarrow> rat \<Rightarrow> number" where
  "round64 neg q =
     (if q = 0 then (if neg then NegZero else Finite 0)
      else
        let a = \<bar>q\<bar>;
            e = max (ilog2 a) (- 1022);
            ulp = 2 powi (e - 52);
            n = round_half_even (a / ulp);
            r = of_int n * ulp
        in if 2 powi 1024 \<le> r then (if q < 0 then NegInf else PosInf)
           else if n = 0 then (if q < 0 then NegZero else Finite 0)
           else Finite (if q < 0 then - r else r))"

fun is_zero :: "number \<Rightarrow> bool" where
  "is_zero NegZero = True"
| "is_zero (Finite q) = (q = 0)"
| "is_zero x = False"

fun is_infinite :: "number \<Rightarrow> bool" where
  "is_infinite PosInf = True"
| "is_infinite NegInf = True"
| "is_infinite x = False"

fun negative :: "number \<Rightarrow> bool" where
  "negative NegInf = True"
| "negative NegZero = True"
| "negative (Finite q) = (q < 0)"
| "negative x = False"

fun value_of :: "number \<Rightarrow> rat" where
  "value_of (Finite q) = q"
| "value_of x = 0"

text \<open>The operators \<open>*\<close>, \<open>+\<close> and \<open>>=\<close> of the language on numbers.\<close>

definition times64 :: "number \<Rightarrow> number \<Rightarrow> number" where
  "times64 x y =
     (if x = NaN \<or> y = NaN then NaN
      else if is_infinite x \<or> is_infinite y
      then (if is_zero x \<or> is_zero y then NaN
            else if negative x = negative y then PosInf else NegInf)
      else round64 (negative x \<noteq> negative y) (value_of x * value_of y))"

fun plus64 :: "number \<Rightarrow> number \<Rightarrow> number" where
  "plus64 NaN y = NaN"
| "plus64 x NaN = NaN"
| "plus64 PosInf NegInf = NaN"
| "plus64 NegInf PosInf = NaN"
| "plus64 PosInf y = PosInf"
| "plus64 x PosInf = PosInf"
| "plus64 NegInf y = NegInf"
| "plus64 x NegInf = NegInf"
| "plus64 NegZero y = y"
| "plus64 x NegZero = x"
| "plus64 (Finite a) (Finite b) = round64 False (a + b)"

fun ge64 :: "number \<Rightarrow> number \<Rightarrow> bool" where
  "ge64 NaN y = False"
| "ge64 x NaN = False"
| "ge64 PosInf y = True"
| "ge64 x NegInf = True"
| "ge64 NegInf y = False"
| "ge64 x PosInf = False"
| "ge64 x y = (value_of y \<le> value_of x)"

section \<open>Data model of the WebSocket client\<close>

text \<open>
  The client is a class with seven private fields, two enums and an options interface.
  The enum \<open>WebSocketState\<close> becomes a datatype; the enum \<open>WebSocketEvents\<close> names the
  notifications, and since every \<open>emit\<close> passes the name together with its arguments the
  datatype below carries the arguments too.  The code of a close event is an integer
  (an unsigned short of the host); the client only passes it on.
\<close>

datatype WebSocketState = Idle | Connecting | Connected | Reconnecting | Disconnecting

datatype payload = Text string | Binary "nat list"

datatype js_error = JsError string

datatype WebSocketEvents =
    EvConnected
  | EvDisconnected bool int
  | EvMessage payload
  | EvError js_error
  | EvReconnecting number
  | EvReconnected

record ReconnectOptions =
  retries :: number
  delay :: number
  increaseDelay :: bool

record CloseEvent =
  code :: int
  reason :: string
  wasClean :: bool

datatype level = Log | Warn | Err

text \<open>
  One record holds the object and the part of the host it talks to.  The first seven
  fields are the fields of the class.  \<open>events\<close> is the sequence of notifications handed
  to \<open>emit\<close>, \<open>console\<close> the sequence of console calls (the level and the leading
  constant text of the message; interpolated values and further arguments are left
  out).  The host owns the transports and the timers: \<open>sockets\<close> are the transports that
  were constructed and have not yet delivered their close event, \<open>closing\<close> the
  transports whose \<open>close()\<close> was called, \<open>sent\<close> the payloads handed to \<open>send\<close>,
  \<open>timers\<close> the pending one-shot timers with their delay, and \<open>fresh\<close> the next unused
  handle.  The object refers to a transport and to a timer only through the handles
  \<open>ws\<close> and \<open>reconnectTimeoutId\<close>.
\<close>

record world =
  url :: string
  ws :: "nat option"
  state :: WebSocketState
  reconnectOptions :: "ReconnectOptions option"
  reconnectAttempts :: number
  reconnectTimeoutId :: "nat option"
  isReconnectingAttempt :: bool
  events :: "WebSocketEvents list"
  console :: "(level \<times> string) list"
  sockets :: "nat list"
  closing :: "nat list"
  sent :: "(nat \<times> payload) list"
  timers :: "(nat \<times> number) list"
  fresh :: nat

definition init :: "string \<Rightarrow> ReconnectOptions option \<Rightarrow> world" where
  "init u opts =
     \<lparr> url = u, ws = None, state = Idle, reconnectOptions = opts,
       reconnectAttempts = Finite 0, reconnectTimeoutId = None,
       isReconnectingAttempt = False, events = [], console = [],
       sockets = [], closing = [], sent = [], timers = [], fresh = 0 \<rparr>"

text \<open>
  A method either returns or is left by an exception; in both cases the assignments it
  made so far stay.  \<open>and_then\<close> runs the rest of a method body after a call that
  returned, and passes an exception on.
\<close>

datatype outcome = Returned world | Raised js_error world

fun world_of :: "outcome \<Rightarrow> world" where
  "world_of (Returned w) = w"
| "world_of (Raised x w) = w"

definition and_then :: "outcome \<Rightarrow> (world \<Rightarrow> outcome) \<Rightarrow> outcome" where
  "and_then r f = (case r of Returned w \<Rightarrow> f w | Raised x w \<Rightarrow> Raised x w)"

section \<open>Host operations\<close>

definition console_out :: "level \<Rightarrow> string \<Rightarrow> world \<Rightarrow> world" where
  "console_out l m w = w\<lparr>console := console w @ [(l, m)]\<rparr>"

definition setTimeout :: "number \<Rightarrow> world \<Rightarrow> nat \<times> world" where
  "setTimeout d w = (fresh w, w\<lparr>timers := timers w @ [(fresh w, d)], fresh := Suc (fresh w)\<rparr>)"

definition clearTimeout :: "nat \<Rightarrow> world \<Rightarrow> world" where
  "clearTimeout t w = w\<lparr>timers := filter (\<lambda>p. fst p \<noteq> t) (timers w)\<rparr>"

text \<open>
  \<open>new WebSocket(url)\<close> either throws or returns a new transport; which of the two is
  decided by the host and passed in as \<open>thr\<close>.  The same holds for \<open>send\<close>.  \<open>close()\<close>
  without arguments does not throw.
\<close>

definition new_WebSocket :: "js_error option \<Rightarrow> world \<Rightarrow> js_error + nat \<times> world" where
  "new_WebSocket thr w =
     (case thr of
        Some e \<Rightarrow> Inl e
      | None \<Rightarrow> Inr (fresh w, w\<lparr>sockets := sockets w @ [fresh w], fresh := Suc (fresh w)\<rparr>))"

definition ws_send :: "js_error option \<Rightarrow> nat \<Rightarrow> payload \<Rightarrow> world \<Rightarrow> js_error + world" where
  "ws_send thr s d w =
     (case thr of
        Some e \<Rightarrow> Inl e
      | None \<Rightarrow> Inr (w\<lparr>sent := sent w @ [(s, d)]\<rparr>))"

definition ws_close :: "nat \<Rightarrow> world \<Rightarrow> world" where
  "ws_close s w = w\<lparr>closing := closing w @ [s]\<rparr>"

section \<open>The methods of the class\<close>

text \<open>
  The class inherits \<open>emit\<close> from the event emitter, which calls the registered
  listeners synchronously and catches nothing.  The methods below take the inherited
  method as their first argument \<open>em\<close>: it receives the notification and the world and
  returns, or raises what a listener threw, in the world the listeners left.
\<close>

type_synonym emitter = "WebSocketEvents \<Rightarrow> world \<Rightarrow> outcome"

definition isConnected :: "world \<Rightarrow> bool" where
  "isConnected w = (state w = Connected)"

definition getState :: "world \<Rightarrow> WebSocketState" where
  "getState w = state w"

definition clearReconnectTimer :: "world \<Rightarrow> world" where
  "clearReconnectTimer w =
     (case reconnectTimeoutId w of
        None \<Rightarrow> w
      | Some t \<Rightarrow>
          console_out Log ''[WebSocketClient] Reconnect timer cleared.''
            ((clearTimeout t w)\<lparr>reconnectTimeoutId := None, isReconnectingAttempt := False\<rparr>))"

definition scheduleReconnect :: "emitter \<Rightarrow> world \<Rightarrow> outcome" where
  "scheduleReconnect em w =
     (case reconnectOptions w of
        None \<Rightarrow> Returned (w\<lparr>isReconnectingAttempt := False\<rparr>)
      | Some opts \<Rightarrow>
          if reconnectTimeoutId w \<noteq> None \<or> state w = Disconnecting
          then Returned (w\<lparr>isReconnectingAttempt := False\<rparr>)
          else if ge64 (reconnectAttempts w) (retries opts)
          then Returned
                 ((console_out Err ''[WebSocketClient] Reached max reconnect attempts.'' w)
                    \<lparr>reconnectAttempts := Finite 0, isReconnectingAttempt := False\<rparr>)
          else
            let w1 = w\<lparr>reconnectAttempts := plus64 (reconnectAttempts w) (Finite 1)\<rparr>;
                currentDelay = (if increaseDelay opts
                                then times64 (delay opts) (reconnectAttempts w1)
                                else delay opts);
                w2 = console_out Log ''[WebSocketClient] Attempting to reconnect'' w1;
                w3 = w2\<lparr>state := Reconnecting, isReconnectingAttempt := True\<rparr>
            in and_then (em (EvReconnecting (reconnectAttempts w3)) w3)
                 (\<lambda>w4. let (t, w5) = setTimeout currentDelay w4
                       in Returned (w5\<lparr>reconnectTimeoutId := Some t\<rparr>)))"

text \<open>
  The public commands and the handlers return \<open>Raised x w\<close> when the exception \<open>x\<close>
  leaves them in world \<open>w\<close>, and \<open>Returned w\<close> when they return normally in world \<open>w\<close>.
\<close>

definition connect :: "emitter \<Rightarrow> js_error option \<Rightarrow> world \<Rightarrow> outcome" where
  "connect em thr w =
     (if state w = Connecting \<or> state w = Connected \<or> state w = Disconnecting
      then Returned w
      else
        let w1 = console_out Log ''[WebSocketClient] Connecting to'' w;
            w2 = w1\<lparr>state := Connecting\<rparr>;
            w3 = (case reconnectTimeoutId w2 of
                    None \<Rightarrow> w2
                  | Some t \<Rightarrow> (clearTimeout t w2)\<lparr>reconnectTimeoutId := None\<rparr>)
        in case new_WebSocket thr w3 of
             Inr (s, w4) \<Rightarrow> Returned (w4\<lparr>ws := Some s\<rparr>)
           | Inl e \<Rightarrow>
               let w4 = console_out Err
                          ''[WebSocketClient] Failed to create WebSocket connection:'' w3;
                   w5 = w4\<lparr>state := Idle, isReconnectingAttempt := False\<rparr>
               in and_then (em (EvError e) w5) (scheduleReconnect em))"

definition disconnect :: "world \<Rightarrow> outcome" where
  "disconnect w =
     (if ws w = None \<or> state w = Idle \<or> state w = Disconnecting
      then Returned
             (console_out Warn ''[WebSocketClient] Not connected or already disconnecting.'' w)
      else
        let w1 = console_out Log ''[WebSocketClient] Disconnecting...'' w;
            w2 = w1\<lparr>state := Disconnecting, isReconnectingAttempt := False\<rparr>;
            w3 = clearReconnectTimer w2;
            w4 = w3\<lparr>reconnectAttempts := Finite 0\<rparr>
        in Returned (ws_close (the (ws w4)) w4))"

definition sendMessage :: "emitter \<Rightarrow> payload \<Rightarrow> js_error option \<Rightarrow> world \<Rightarrow> outcome" where
  "sendMessage em d thr w =
     (if \<not> isConnected w \<or> ws w = None
      then Returned
             (console_out Warn ''[WebSocketClient] Cannot send message. Not connected.'' w)
      else
        case ws_send thr (the (ws w)) d w of
          Inr w1 \<Rightarrow> Returned (console_out Log ''[WebSocketClient] Message sent:'' w1)
        | Inl e \<Rightarrow>
            em (EvError e) (console_out Err ''[WebSocketClient] Failed to send message:'' w))"

definition handleOpen :: "emitter \<Rightarrow> world \<Rightarrow> outcome" where
  "handleOpen em w =
     (let wasReconnecting = isReconnectingAttempt w;
          w1 = console_out Log ''[WebSocketClient] Connection established.'' w;
          w2 = w1\<lparr>state := Connected, reconnectAttempts := Finite 0,
                  isReconnectingAttempt := False\<rparr>
      in and_then (if wasReconnecting then em EvReconnected w2 else Returned w2)
           (em EvConnected))"

definition handleMessage :: "emitter \<Rightarrow> payload \<Rightarrow> world \<Rightarrow> outcome" where
  "handleMessage em d w =
     em (EvMessage d) (console_out Log ''[WebSocketClient] Message received:'' w)"

definition handleClose :: "emitter \<Rightarrow> CloseEvent \<Rightarrow> world \<Rightarrow> outcome" where
  "handleClose em ev w =
     (if state w = Disconnecting
      then
        let w1 = console_out Log ''[WebSocketClient] Connection closed intentionally.'' w;
            w2 = w1\<lparr>ws := None, state := Idle, isReconnectingAttempt := False\<rparr>
        in em (EvDisconnected (wasClean ev) (code ev)) w2
      else
        let w1 = console_out Warn ''[WebSocketClient] Connection closed unexpectedly.'' w;
            w2 = w1\<lparr>ws := None\<rparr>;
            previousState = state w2;
            w3 = w2\<lparr>state := Idle\<rparr>
        in and_then (em (EvDisconnected (wasClean ev) (code ev)) w3)
             (\<lambda>w4. if reconnectOptions w4 \<noteq> None \<and>
                       (previousState = Connected \<or> previousState = Connecting \<or>
                        previousState = Reconnecting)
                    then scheduleReconnect em w4
                    else Returned (w4\<lparr>isReconnectingAttempt := False\<rparr>)))"

text \<open>
  The error handler receives an \<open>ErrorEvent\<close> carrying an error, or a plain \<open>Event\<close>, for
  which it makes an error of its own.
\<close>

definition handleError :: "emitter \<Rightarrow> js_error option \<Rightarrow> world \<Rightarrow> outcome" where
  "handleError em event w =
     (let error = (case event of
                     Some e \<Rightarrow> e
                   | None \<Rightarrow> JsError ''WebSocket error occurred'');
          w1 = console_out Err ''[WebSocketClient] WebSocket error:'' w
      in em (EvError error) w1)"

text \<open>The arrow function that \<open>scheduleReconnect\<close> hands to \<open>setTimeout\<close>.\<close>

definition timerCallback :: "emitter \<Rightarrow> js_error option \<Rightarrow> world \<Rightarrow> outcome" where
  "timerCallback em thr w =
     (let w1 = w\<lparr>reconnectTimeoutId := None\<rparr>
      in if state w1 = Reconnecting then connect em thr w1
         else Returned (w1\<lparr>isReconnectingAttempt := False\<rparr>))"

section \<open>Listeners\<close>

text \<open>
  What the registered listeners do with a notification is given by a function of the
  notification and of the world in which it is emitted (its log of notifications
  included): the commands of the client they call, in order, and the exception they
  throw afterwards, if any.  An exception that leaves a command called by a listener
  leaves the listener too.

  \<open>emit n L\<close> is the inherited method with listeners \<open>L\<close> when the call stack has room
  for \<open>n\<close> more nested notifications: it records the notification and runs the
  listeners, whose commands emit with one level less.  With no room left, a listener
  that calls a command overflows the stack.
\<close>

datatype call = DoConnect "js_error option" | DoDisconnect | DoSend payload "js_error option"

type_synonym listeners = "WebSocketEvents \<Rightarrow> world \<Rightarrow> call list \<times> js_error option"

fun do_call :: "emitter \<Rightarrow> call \<Rightarrow> world \<Rightarrow> outcome" where
  "do_call em (DoConnect thr) w = connect em thr w"
| "do_call em DoDisconnect w = disconnect w"
| "do_call em (DoSend d thr) w = sendMessage em d thr w"

fun do_calls :: "emitter \<Rightarrow> call list \<Rightarrow> world \<Rightarrow> outcome" where
  "do_calls em [] w = Returned w"
| "do_calls em (c # cs) w = and_then (do_call em c w) (do_calls em cs)"

definition throw_after :: "js_error option \<Rightarrow> world \<Rightarrow> outcome" where
  "throw_after thr w = (case thr of None \<Rightarrow> Returned w | Some x \<Rightarrow> Raised x w)"

definition stack_overflow :: js_error where
  "stack_overflow = JsError ''RangeError: Maximum call stack size exceeded''"

fun emit :: "nat \<Rightarrow> listeners \<Rightarrow> emitter" where
  "emit 0 L e w =
     (let w1 = w\<lparr>events := events w @ [e]\<rparr>
      in case fst (L e w1) of
           [] \<Rightarrow> throw_after (snd (L e w1)) w1
         | c # cs \<Rightarrow> Raised stack_overflow w1)"
| "emit (Suc n) L e w =
     (let w1 = w\<lparr>events := events w @ [e]\<rparr>
      in and_then (do_calls (emit n L) (fst (L e w1)) w1) (throw_after (snd (L e w1))))"

text \<open>
  Two kinds of listeners: none registered (or only listeners that observe), and
  listeners that call no command but may throw, \<open>T\<close> saying what.
\<close>

definition no_listeners :: listeners where
  "no_listeners = (\<lambda>e w. ([], None))"

definition throwing :: "(WebSocketEvents \<Rightarrow> world \<Rightarrow> js_error option) \<Rightarrow> listeners" where
  "throwing T = (\<lambda>e w. ([], T e w))"

section \<open>Executions\<close>

text \<open>
  An execution is a sequence of inputs: calls of the three public commands, events of a
  transport, and the firing of a timer.  The host delivers an event only of a transport
  that has not yet delivered its close event, and the close event is the last one of a
  transport; it fires only a timer that is pending, and firing removes it.  An input the
  host cannot deliver leaves the world as it is.  An exception that leaves a command
  goes to its caller and one that leaves a handler to the host; the execution goes on in
  the world the exception left.  \<open>run\<close> returns the last world, as \<open>Raised x\<close> when some
  input raised, \<open>x\<close> being the first exception.
\<close>

datatype input =
    CallConnect "js_error option"
  | CallDisconnect
  | CallSend payload "js_error option"
  | SockOpen nat
  | SockMessage nat payload
  | SockError nat "js_error option"
  | SockClose nat CloseEvent
  | TimerFire nat "js_error option"

definition live :: "nat \<Rightarrow> world \<Rightarrow> bool" where
  "live s w = (s \<in> set (sockets w))"

definition pending :: "nat \<Rightarrow> world \<Rightarrow> bool" where
  "pending t w = (t \<in> set (map fst (timers w)))"

fun step :: "nat \<Rightarrow> listeners \<Rightarrow> input \<Rightarrow> world \<Rightarrow> outcome" where
  "step n L (CallConnect thr) w = connect (emit n L) thr w"
| "step n L CallDisconnect w = disconnect w"
| "step n L (CallSend d thr) w = sendMessage (emit n L) d thr w"
| "step n L (SockOpen s) w = (if live s w then handleOpen (emit n L) w else Returned w)"
| "step n L (SockMessage s d) w =
     (if live s w then handleMessage (emit n L) d w else Returned w)"
| "step n L (SockError s ev) w =
     (if live s w then handleError (emit n L) ev w else Returned w)"
| "step n L (SockClose s ev) w =
     (if live s w then handleClose (emit n L) ev (w\<lparr>sockets := removeAll s (sockets w)\<rparr>)
      else Returned w)"
| "step n L (TimerFire t thr) w =
     (if pending t w then timerCallback (emit n L) thr (clearTimeout t w) else Returned w)"

fun run :: "nat \<Rightarrow> listeners \<Rightarrow> input list \<Rightarrow> world \<Rightarrow> outcome" where
  "run n L [] w = Returned w"
| "run n L (i # is) w =
     (case step n L i w of
        Returned w1 \<Rightarrow> run n L is w1
      | Raised x w1 \<Rightarrow> Raised x (world_of (run n L is w1)))"

section \<open>Predicates on executions\<close>

text \<open>
  \<open>returns P r\<close> says that a method or an execution returned normally, in a world that
  satisfies \<open>P\<close>.  \<open>never_raises em\<close> says that the inherited \<open>emit\<close> returns normally
  from every notification: no listener throws and none overflows the stack.
\<close>

definition returns :: "(world \<Rightarrow> bool) \<Rightarrow> outcome \<Rightarrow> bool" where
  "returns P r = (case r of Returned w \<Rightarrow> P w | Raised x w \<Rightarrow> False)"

definition never_raises :: "emitter \<Rightarrow> bool" where
  "never_raises em = (\<forall>e w. returns (\<lambda>w'. True) (em e w))"

text \<open>
  The shape of the worlds an execution reaches when no listener calls a command: which
  handles the object holds in which state, and that the host owns exactly the transport
  and the timer the object holds a handle of.  \<open>consistent\<close> is the shape when no
  listener throws either; \<open>coherent\<close> allows for listeners that throw, after which the
  state can be Reconnecting with no timer set.
\<close>

definition consistent :: "world \<Rightarrow> bool" where
  "consistent w =
     (case state w of
        Idle \<Rightarrow> ws w = None \<and> sockets w = [] \<and> reconnectTimeoutId w = None \<and> timers w = []
      | Reconnecting \<Rightarrow>
          ws w = None \<and> sockets w = [] \<and> isReconnectingAttempt w \<and>
          reconnectTimeoutId w \<noteq> None \<and> map fst (timers w) = [the (reconnectTimeoutId w)]
      | _ \<Rightarrow>
          reconnectTimeoutId w = None \<and> timers w = [] \<and>
          ws w \<noteq> None \<and> sockets w = [the (ws w)])"

definition coherent :: "world \<Rightarrow> bool" where
  "coherent w =
     (case state w of
        Idle \<Rightarrow> ws w = None \<and> sockets w = [] \<and> reconnectTimeoutId w = None \<and> timers w = []
      | Reconnecting \<Rightarrow>
          ws w = None \<and> sockets w = [] \<and> isReconnectingAttempt w \<and>
          map fst (timers w) = (case reconnectTimeoutId w of None \<Rightarrow> [] | Some t \<Rightarrow> [t])
      | _ \<Rightarrow>
          reconnectTimeoutId w = None \<and> timers w = [] \<and>
          ws w \<noteq> None \<and> sockets w = [the (ws w)])"





text \<open>The attempt numbers carried by the Reconnecting notifications, in order.\<close>

fun attempts_announced :: "WebSocketEvents list \<Rightarrow> number list" where
  "attempts_announced [] = []"
| "attempts_announced (EvReconnecting a # es) = a # attempts_announced es"
| "attempts_announced (e # es) = attempts_announced es"

section \<open>Scenarios\<close>

text \<open>
  Concrete inputs on which the theorems below are instantiated: the address of the mock
  server of the test suite, a retry policy with growing delay, the close event of a
  server that closes the connection, and the worlds after a successful first open, after
  the server dropped that connection, and after the retry timer fired, all with no
  listener registered.
\<close>

definition MOCK_WEBSOCKET_URL :: string where
  "MOCK_WEBSOCKET_URL = ''ws://localhost:1234''"

definition linear_backoff :: ReconnectOptions where
  "linear_backoff = \<lparr>retries = Finite 3, delay = Finite 50, increaseDelay = True\<rparr>"

definition server_close :: CloseEvent where
  "server_close = \<lparr>code = 1000, reason = [], wasClean = True\<rparr>"

definition connected_world :: world where
  "connected_world =
     world_of (run 0 no_listeners [CallConnect None, SockOpen 0]
                 (init MOCK_WEBSOCKET_URL (Some linear_backoff)))"

definition dropped_world :: world where
  "dropped_world =
     world_of (run 0 no_listeners [CallConnect None, SockOpen 0, SockClose 0 server_close]
                 (init MOCK_WEBSOCKET_URL (Some linear_backoff)))"

definition retrying_world :: world where
  "retrying_world =
     world_of (run 0 no_listeners
                 [CallConnect None, SockOpen 0, SockClose 0 server_close, TimerFire 1 None]
                 (init MOCK_WEBSOCKET_URL (Some linear_backoff)))"

text \<open>
  Listeners that act on a notification: one that calls \<open>connect()\<close> when it is told of
  a disconnection, one that calls \<open>connect()\<close> when the first retry is announced, and
  one that throws when it is told of an error.  The last policy has the largest odd
  delay that a number holds exactly.
\<close>

definition reconnect_on_drop :: listeners where
  "reconnect_on_drop =
     (\<lambda>e w. case e of EvDisconnected c k \<Rightarrow> ([DoConnect None], None) | _ \<Rightarrow> ([], None))"

definition connect_on_first_retry :: listeners where
  "connect_on_first_retry =
     (\<lambda>e w. if e = EvReconnecting (Finite 1)
            then ([DoConnect (Some (JsError ''SyntaxError''))], None)
            else ([], None))"

definition throw_on_error :: listeners where
  "throw_on_error =
     throwing (\<lambda>e w. case e of EvError x \<Rightarrow> Some (JsError ''listener failed'') | _ \<Rightarrow> None)"

definition huge_delay :: ReconnectOptions where
  "huge_delay = \<lparr>retries = Finite 3, delay = Finite 9007199254740991, increaseDelay = True\<rparr>"

text \<open>
  The worlds the acting listeners lead to, each after the first connection opened and
  was dropped by the server, and the world after three drops under the fourth policy.
\<close>

definition reentered_world :: world where
  "reentered_world =
     world_of (run (Suc 0) reconnect_on_drop
                 [CallConnect None, SockOpen 0, SockClose 0 server_close]
                 (init MOCK_WEBSOCKET_URL (Some linear_backoff)))"

definition overtaken_world :: world where
  "overtaken_world =
     world_of (run (Suc 0) connect_on_first_retry
                 [CallConnect None, SockOpen 0, SockClose 0 server_close]
                 (init MOCK_WEBSOCKET_URL (Some linear_backoff)))"

definition third_retry_world :: world where
  "third_retry_world =
     world_of (run 0 no_listeners
                 [CallConnect None, SockOpen 0, SockClose 0 server_close,
                  TimerFire 1 None, SockClose 2 server_close,
                  TimerFire 3 None, SockClose 4 server_close]
                 (init MOCK_WEBSOCKET_URL (Some huge_delay)))"

text \<open>
  The call of \<open>connect()\<close> on a new client whose transport constructor throws, with the
  listener that throws on errors registered.
\<close>

definition rejected_connect :: outcome where
  "rejected_connect =
     connect (emit 0 throw_on_error) (Some (JsError ''SyntaxError''))
       (init MOCK_WEBSOCKET_URL (Some linear_backoff))"

section \<open>Arithmetic on integer-valued numbers\<close>

text \<open>
  Rounding leaves every integer of magnitude at most \<open>2 ^ 53\<close> as it is, so counting
  attempts and multiplying a delay are exact as long as the results stay in that range.
  Beyond it they are not: three times \<open>2 ^ 53 - 1\<close> is rounded down by one.
\<close>

lemma round_half_even_of_int: "round_half_even (of_int m) = m"
  by (simp add: round_half_even_def)

lemma ilog2_of_int: "1 \<le> i \<Longrightarrow> ilog2 (of_int i) = bitlen i - 1"
  by (simp add: ilog2_def)

lemma round64_pos_int:
  assumes "1 \<le> i" and "i \<le> 2 ^ 53"
  shows "round64 s (of_int i) = Finite (of_int i)"
proof -
  define e where "e = bitlen i - 1"
  from assms(1) have pos: "0 < i" by simp
  from bitlen_bounds [OF pos] have lo: "2 ^ nat e \<le> i" and hi: "i < 2 ^ nat (e + 1)"
    by (simp_all add: e_def)
  from pos have "bitlen i \<noteq> 0"
    by (simp add: bitlen_eq_zero_iff)
  with bitlen_nonneg [of i] have e0: "0 \<le> e"
    by (simp add: e_def)
  have "nat e \<le> 53"
  proof (rule power_le_imp_le_exp)
    show "(1::int) < 2" by simp
    show "(2::int) ^ nat e \<le> 2 ^ 53" using lo assms(2) by (rule order_trans)
  qed
  with e0 have e53: "e \<le> 53" by simp
  have il: "ilog2 (of_int i) = e"
    using assms(1) by (simp add: ilog2_of_int e_def)
  obtain m where m: "(of_int i :: rat) / 2 powi (e - 52) = of_int m"
  proof (cases "e \<le> 52")
    case True
    then have "(2::rat) powi (e - 52) = inverse (2 ^ nat (52 - e))"
      by (cases "e = 52") (simp_all add: power_int_def power_one_over inverse_eq_divide)
    then have "(of_int i :: rat) / 2 powi (e - 52) = of_int (i * 2 ^ nat (52 - e))"
      by (simp add: divide_inverse)
    then show ?thesis by (rule that)
  next
    case False
    with e53 have e: "e = 53" by simp
    with lo assms(2) have "i = 2 ^ 53" by simp
    with e have "(of_int i :: rat) / 2 powi (e - 52) = of_int (2 ^ 52)"
      by simp
    then show ?thesis by (rule that)
  qed
  have ulp: "(2::rat) powi (e - 52) \<noteq> 0" by simp
  from m ulp have r: "of_int m * 2 powi (e - 52) = (of_int i :: rat)"
    by (simp add: field_simps)
  from r pos have m0: "m \<noteq> 0" by auto
  have small: "\<not> (2::rat) powi 1024 \<le> of_int i"
  proof -
    have "(of_int i :: rat) \<le> 2 ^ 53" using assms(2) by (metis of_int_le_iff of_int_numeral of_int_power)
    moreover have "(2::rat) ^ 53 < 2 ^ 1024" by simp
    ultimately show ?thesis by simp
  qed
  from e0 have mx: "max e (- 1022) = e" by simp
  from pos have a: "\<bar>of_int i :: rat\<bar> = of_int i" "(of_int i :: rat) \<noteq> 0" "\<not> (of_int i :: rat) < 0"
    by simp_all
  show ?thesis
    unfolding round64_def Let_def a il mx m round_half_even_of_int r
    using small m0 a by simp
qed

lemma round64_numeral:
  "numeral n \<le> (2::int) ^ 53 \<Longrightarrow> round64 s (numeral n) = Finite (numeral n)"
  using round64_pos_int [of "numeral n" s] by simp

lemma round64_one: "round64 s 1 = Finite 1"
  using round64_pos_int [of 1 s] by simp

lemma plus64_jsnum:
  "0 \<le> i \<Longrightarrow> i < 2 ^ 53 \<Longrightarrow> plus64 (jsnum i) (Finite 1) = jsnum (i + 1)"
  using round64_pos_int [of "i + 1" False] by (simp add: jsnum_def)

lemma times64_jsnum:
  assumes "0 \<le> d" and "1 \<le> k" and "d * k \<le> 2 ^ 53"
  shows "times64 (jsnum d) (jsnum k) = jsnum (d * k)"
proof (cases "d = 0")
  case True
  with assms(2) show ?thesis
    by (simp add: times64_def jsnum_def round64_def)
next
  case False
  with assms(1) have "1 \<le> d" by simp
  have "1 * 1 \<le> d * k"
  proof (rule mult_mono)
    show "1 \<le> d" by fact
    show "1 \<le> k" by fact
    show "0 \<le> d" by fact
    show "(0::int) \<le> 1" by simp
  qed
  then have "1 \<le> d * k" by simp
  from round64_pos_int [OF this assms(3)] show ?thesis
    by (simp add: times64_def jsnum_def)
qed

lemma ge64_jsnum: "ge64 (jsnum a) (jsnum b) = (b \<le> a)"
  by (simp add: jsnum_def)

lemma bitlen_c: "bitlen 27021597764222973 = 55"
  by (simp add: compute_bitlen)

lemma floor_c: "\<lfloor>27021597764222973 / 4 :: rat\<rfloor> = 6755399441055743"
  by (rule floor_unique) simp_all

lemma round64_c: "round64 s 27021597764222973 = Finite 27021597764222972"
  by (simp add: round64_def ilog2_def bitlen_c round_half_even_def Let_def floor_c)

section \<open>The invariants of executions\<close>

lemma returns_Returned [simp]: "returns P (Returned w) = P w"
  by (simp add: returns_def)

lemma returns_Raised [simp]: "returns P (Raised x w) = False"
  by (simp add: returns_def)

lemma and_then_Returned [simp]: "and_then (Returned w) f = f w"
  by (simp add: and_then_def)

lemma and_then_Raised [simp]: "and_then (Raised x w) f = Raised x w"
  by (simp add: and_then_def)

lemma emit_no_listeners [simp]:
  "emit n no_listeners e w = Returned (w\<lparr>events := events w @ [e]\<rparr>)"
  by (cases n) (simp_all add: no_listeners_def throw_after_def)

lemma emit_throwing:
  "emit n (throwing T) e w =
     throw_after (T e (w\<lparr>events := events w @ [e]\<rparr>)) (w\<lparr>events := events w @ [e]\<rparr>)"
  by (cases n) (simp_all add: throwing_def Let_def)

lemma filter_only_timer:
  "map fst xs = [a] \<Longrightarrow> filter (\<lambda>p. fst p \<noteq> a) xs = []"
  by (cases xs) auto

lemma consistent_init: "consistent (init u opts)"
  by (simp add: consistent_def init_def)

lemma consistent_scheduleReconnect:
  "consistent w \<Longrightarrow> state w = Idle \<Longrightarrow>
   returns consistent (scheduleReconnect (emit n no_listeners) w)"
  by (cases "reconnectOptions w")
     (simp_all add: consistent_def scheduleReconnect_def console_out_def
        setTimeout_def Let_def)

lemma consistent_handleOpen:
  "consistent w \<Longrightarrow> live s w \<Longrightarrow> returns consistent (handleOpen (emit n no_listeners) w)"
  by (cases "state w")
     (simp_all add: consistent_def live_def handleOpen_def console_out_def Let_def)

lemma consistent_handleMessage:
  "consistent w \<Longrightarrow> returns consistent (handleMessage (emit n no_listeners) d w)"
  by (cases "state w") (simp_all add: consistent_def handleMessage_def console_out_def)

lemma consistent_handleError:
  "consistent w \<Longrightarrow> returns consistent (handleError (emit n no_listeners) ev w)"
  by (cases "state w")
     (simp_all add: consistent_def handleError_def console_out_def Let_def)

lemma consistent_sendMessage:
  "consistent w \<Longrightarrow> returns consistent (sendMessage (emit n no_listeners) d thr w)"
  by (cases "state w"; cases thr; cases "ws w")
     (simp_all add: consistent_def sendMessage_def isConnected_def ws_send_def
        console_out_def)

lemma consistent_disconnect:
  "consistent w \<Longrightarrow> returns consistent (disconnect w)"
  by (cases "state w"; cases "ws w")
     (simp_all add: consistent_def disconnect_def clearReconnectTimer_def ws_close_def
        console_out_def Let_def)

lemma consistent_handleClose:
  "consistent w \<Longrightarrow> live s w \<Longrightarrow>
   returns consistent
     (handleClose (emit n no_listeners) ev (w\<lparr>sockets := removeAll s (sockets w)\<rparr>))"
  by (cases "state w"; cases "reconnectOptions w";
      simp add: handleClose_def Let_def console_out_def;
      (rule consistent_scheduleReconnect)?; simp add: consistent_def live_def)

lemma consistent_connect:
  "consistent w \<Longrightarrow> returns consistent (connect (emit n no_listeners) thr w)"
  by (cases "state w"; cases thr; cases "reconnectTimeoutId w";
      simp add: connect_def new_WebSocket_def clearTimeout_def Let_def console_out_def;
      (rule consistent_scheduleReconnect)?; simp add: consistent_def filter_only_timer)

lemma consistent_timerCallback:
  "consistent w \<Longrightarrow> pending t w \<Longrightarrow>
   returns consistent (timerCallback (emit n no_listeners) thr (clearTimeout t w))"
  by (cases "state w"; cases thr; cases "reconnectTimeoutId w";
      simp add: timerCallback_def connect_def new_WebSocket_def clearTimeout_def Let_def
        console_out_def;
      (rule consistent_scheduleReconnect)?;
      simp add: consistent_def pending_def filter_only_timer)

lemma consistent_step:
  "consistent w \<Longrightarrow> returns consistent (step n no_listeners i w)"
  by (cases i)
     (simp_all add: consistent_connect consistent_disconnect consistent_sendMessage
        consistent_handleOpen consistent_handleMessage consistent_handleError
        consistent_handleClose consistent_timerCallback)

lemma consistent_run:
  "consistent w \<Longrightarrow> returns consistent (run n no_listeners ins w)"
proof (induction ins arbitrary: w)
  case Nil
  then show ?case by simp
next
  case (Cons i ins)
  from Cons.prems have "returns consistent (step n no_listeners i w)"
    by (rule consistent_step)
  then obtain w1 where s: "step n no_listeners i w = Returned w1" and c: "consistent w1"
    by (cases "step n no_listeners i w") simp_all
  from Cons.IH [OF c] s show ?case by simp
qed


lemma coherent_init: "coherent (init u opts)"
  by (simp add: coherent_def init_def)

lemma coherent_scheduleReconnect:
  "coherent w \<Longrightarrow> state w = Idle \<Longrightarrow>
   coherent (world_of (scheduleReconnect (emit n (throwing T)) w))"
  by (cases "reconnectOptions w")
     (simp_all add: coherent_def scheduleReconnect_def console_out_def emit_throwing
        throw_after_def setTimeout_def Let_def split: option.split)

lemma coherent_handleOpen:
  "coherent w \<Longrightarrow> live s w \<Longrightarrow> coherent (world_of (handleOpen (emit n (throwing T)) w))"
  by (cases "state w")
     (simp_all add: coherent_def live_def handleOpen_def console_out_def emit_throwing
        throw_after_def Let_def split: option.split)

lemma coherent_handleMessage:
  "coherent w \<Longrightarrow> coherent (world_of (handleMessage (emit n (throwing T)) d w))"
  by (cases "state w")
     (simp_all add: coherent_def handleMessage_def console_out_def emit_throwing
        throw_after_def split: option.split)

lemma coherent_handleError:
  "coherent w \<Longrightarrow> coherent (world_of (handleError (emit n (throwing T)) ev w))"
  by (cases "state w")
     (simp_all add: coherent_def handleError_def console_out_def emit_throwing
        throw_after_def Let_def split: option.split)

lemma coherent_sendMessage:
  "coherent w \<Longrightarrow> coherent (world_of (sendMessage (emit n (throwing T)) d thr w))"
  by (cases "state w"; cases thr; cases "ws w")
     (simp_all add: coherent_def sendMessage_def isConnected_def ws_send_def
        console_out_def emit_throwing throw_after_def split: option.split)

lemma coherent_disconnect:
  "coherent w \<Longrightarrow> coherent (world_of (disconnect w))"
  by (cases "state w"; cases "ws w"; cases "reconnectTimeoutId w")
     (simp_all add: coherent_def disconnect_def clearReconnectTimer_def ws_close_def
        console_out_def Let_def)

lemma coherent_and_then_emit:
  assumes "coherent w0" and "state w0 = Idle"
    and f: "\<And>w1. coherent w1 \<Longrightarrow> state w1 = Idle \<Longrightarrow> coherent (world_of (f w1))"
  shows "coherent (world_of (and_then (emit n (throwing T) e w0) f))"
proof (cases "T e (w0\<lparr>events := events w0 @ [e]\<rparr>)")
  case None
  let ?w1 = "w0\<lparr>events := events w0 @ [e]\<rparr>"
  from assms(1,2) have "coherent ?w1" and "state ?w1 = Idle"
    by (simp_all add: coherent_def)
  then have "coherent (world_of (f ?w1))"
    by (rule f)
  then show ?thesis
    using None by (simp add: emit_throwing throw_after_def)
next
  case (Some x)
  with assms(1,2) show ?thesis
    by (simp add: emit_throwing throw_after_def coherent_def)
qed

lemma coherent_reschedule:
  "coherent w1 \<Longrightarrow> state w1 = Idle \<Longrightarrow>
   coherent (world_of (if c then scheduleReconnect (emit n (throwing T)) w1
                       else Returned (w1\<lparr>isReconnectingAttempt := False\<rparr>)))"
  by (cases c) (simp_all add: coherent_scheduleReconnect, simp add: coherent_def)

lemma coherent_handleClose:
  "coherent w \<Longrightarrow> live s w \<Longrightarrow>
   coherent (world_of
     (handleClose (emit n (throwing T)) ev (w\<lparr>sockets := removeAll s (sockets w)\<rparr>)))"
  by (cases "state w";
      simp add: handleClose_def Let_def console_out_def;
      (rule coherent_and_then_emit)?; (rule coherent_reschedule)?;
      simp add: coherent_def live_def emit_throwing throw_after_def split: option.split)

lemma coherent_connect:
  "coherent w \<Longrightarrow> coherent (world_of (connect (emit n (throwing T)) thr w))"
  by (cases "state w"; cases thr; cases "reconnectTimeoutId w";
      simp add: connect_def new_WebSocket_def clearTimeout_def Let_def console_out_def;
      (rule coherent_and_then_emit)?; (rule coherent_scheduleReconnect)?;
      simp add: coherent_def filter_only_timer)

lemma coherent_timerCallback:
  "coherent w \<Longrightarrow> pending t w \<Longrightarrow>
   coherent (world_of (timerCallback (emit n (throwing T)) thr (clearTimeout t w)))"
  by (cases "state w"; cases thr; cases "reconnectTimeoutId w";
      simp add: timerCallback_def connect_def new_WebSocket_def clearTimeout_def Let_def
        console_out_def;
      (rule coherent_and_then_emit)?; (rule coherent_scheduleReconnect)?;
      simp add: coherent_def pending_def filter_only_timer)

lemma coherent_step:
  "coherent w \<Longrightarrow> coherent (world_of (step n (throwing T) i w))"
  by (cases i)
     (simp_all add: coherent_connect coherent_disconnect coherent_sendMessage
        coherent_handleOpen coherent_handleMessage coherent_handleError
        coherent_handleClose coherent_timerCallback)

lemma world_of_run_Cons:
  "world_of (run n L (i # ins) w) = world_of (run n L ins (world_of (step n L i w)))"
  by (cases "step n L i w") simp_all

lemma coherent_run:
  "coherent w \<Longrightarrow> coherent (world_of (run n (throwing T) ins w))"
proof (induction ins arbitrary: w)
  case Nil
  then show ?case by simp
next
  case (Cons i ins)
  from Cons.prems have "coherent (world_of (step n (throwing T) i w))"
    by (rule coherent_step)
  from Cons.IH [OF this] show ?case
    by (simp only: world_of_run_Cons)
qed

section \<open>Evaluating the scenarios\<close>

lemmas model_defs = init_def console_out_def setTimeout_def clearTimeout_def
  new_WebSocket_def ws_send_def ws_close_def isConnected_def clearReconnectTimer_def
  scheduleReconnect_def connect_def disconnect_def sendMessage_def handleOpen_def
  handleMessage_def handleClose_def handleError_def timerCallback_def live_def pending_def
  throw_after_def times64_def round64_numeral round64_one Let_def

lemmas scenario_defs = MOCK_WEBSOCKET_URL_def linear_backoff_def server_close_def

lemma run_connected_world:
  "run n no_listeners [CallConnect None, SockOpen 0]
     (init MOCK_WEBSOCKET_URL (Some linear_backoff)) = Returned connected_world"
  by (simp add: connected_world_def model_defs)

lemma connected_world_fields:
  "state connected_world = Connected \<and> ws connected_world = Some 0 \<and>
   sockets connected_world = [0] \<and> timers connected_world = [] \<and>
   reconnectTimeoutId connected_world = None \<and>
   reconnectAttempts connected_world = Finite 0 \<and>
   reconnectOptions connected_world = Some linear_backoff \<and>
   events connected_world = [EvConnected] \<and> sent connected_world = [] \<and>
   fresh connected_world = 1"
  by (simp add: connected_world_def model_defs)

lemma run_dropped_world:
  "run n no_listeners [CallConnect None, SockOpen 0, SockClose 0 server_close]
     (init MOCK_WEBSOCKET_URL (Some linear_backoff)) = Returned dropped_world"
  by (simp add: dropped_world_def model_defs scenario_defs)

lemma dropped_world_fields:
  "state dropped_world = Reconnecting \<and> ws dropped_world = None \<and>
   sockets dropped_world = [] \<and> timers dropped_world = [(1, Finite 50)] \<and>
   reconnectTimeoutId dropped_world = Some 1 \<and>
   reconnectAttempts dropped_world = Finite 1 \<and>
   reconnectOptions dropped_world = Some linear_backoff \<and>
   isReconnectingAttempt dropped_world \<and>
   events dropped_world = [EvConnected, EvDisconnected True 1000, EvReconnecting (Finite 1)] \<and>
   fresh dropped_world = 2"
  by (simp add: dropped_world_def model_defs scenario_defs)

lemma run_retrying_world:
  "run n no_listeners
     [CallConnect None, SockOpen 0, SockClose 0 server_close, TimerFire 1 None]
     (init MOCK_WEBSOCKET_URL (Some linear_backoff)) = Returned retrying_world"
  by (simp add: retrying_world_def model_defs scenario_defs)

lemma retrying_world_fields:
  "state retrying_world = Connecting \<and> ws retrying_world = Some 2 \<and>
   sockets retrying_world = [2] \<and> timers retrying_world = [] \<and>
   reconnectTimeoutId retrying_world = None \<and>
   reconnectAttempts retrying_world = Finite 1 \<and>
   reconnectOptions retrying_world = Some linear_backoff \<and>
   isReconnectingAttempt retrying_world \<and>
   events retrying_world = [EvConnected, EvDisconnected True 1000, EvReconnecting (Finite 1)] \<and>
   fresh retrying_world = 3"
  by (simp add: retrying_world_def model_defs scenario_defs)

section \<open>State and transport handle\<close>

text \<open>
  Claim C2 as stated: after every sequence of calls and transport callbacks the transport
  handle is non-null exactly when the state is Connecting, Connected or Disconnecting.
  It fails when a listener calls \<open>connect()\<close> from inside the Disconnected notification:
  the close handler has set the state to Idle, the listener's \<open>connect()\<close> creates
  transport 1, and the retry scheduler, entered after the notification, sets the state
  to Reconnecting without looking at the state or the handle.
\<close>

theorem transport_present_iff_state_counterexample:
  "state reentered_world = Reconnecting \<and> ws reentered_world = Some 1 \<and>
   \<not> ((ws reentered_world \<noteq> None) =
      (state reentered_world \<in> {Connecting, Connected, Disconnecting}))"
  by (simp add: reentered_world_def model_defs scenario_defs reconnect_on_drop_def)

text \<open>
  Claim C2, amended.  When no listener calls a command of the client from inside a
  notification (listeners may throw), then after every sequence of calls of
  \<open>connect()\<close>, \<open>disconnect()\<close> and \<open>sendMessage()\<close>, transport events (open, message,
  error, close), timer firings and failures of the transport constructor, the state is
  one of the five values, and the transport handle is present exactly when the state is
  Connecting, Connected or Disconnecting; it is absent exactly when the state is Idle or
  Reconnecting.  With no listener registered, moreover, no input of the sequence raised.
\<close>

theorem transport_present_iff_state:
  "state (world_of (run n (throwing T) ins (init u opts)))
     \<in> {Idle, Connecting, Connected, Reconnecting, Disconnecting} \<and>
   (ws (world_of (run n (throwing T) ins (init u opts))) \<noteq> None) =
     (state (world_of (run n (throwing T) ins (init u opts)))
        \<in> {Connecting, Connected, Disconnecting}) \<and>
   (ws (world_of (run n (throwing T) ins (init u opts))) = None) =
     (state (world_of (run n (throwing T) ins (init u opts))) \<in> {Idle, Reconnecting}) \<and>
   returns (\<lambda>w. (ws w \<noteq> None) = (state w \<in> {Connecting, Connected, Disconnecting}))
     (run n no_listeners ins (init u opts))"
proof -
  let ?w = "world_of (run n (throwing T) ins (init u opts))"
  have "coherent ?w"
    by (rule coherent_run [OF coherent_init])
  then have a: "state ?w \<in> {Idle, Connecting, Connected, Reconnecting, Disconnecting} \<and>
      (ws ?w \<noteq> None) = (state ?w \<in> {Connecting, Connected, Disconnecting}) \<and>
      (ws ?w = None) = (state ?w \<in> {Idle, Reconnecting})"
    by (cases "state ?w") (simp_all add: coherent_def)
  have "returns consistent (run n no_listeners ins (init u opts))"
    by (rule consistent_run [OF consistent_init])
  then obtain v where r: "run n no_listeners ins (init u opts) = Returned v"
    and c: "consistent v"
    by (cases "run n no_listeners ins (init u opts)") simp_all
  from c have "(ws v \<noteq> None) = (state v \<in> {Connecting, Connected, Disconnecting})"
    by (cases "state v") (simp_all add: consistent_def)
  with r have "returns (\<lambda>w. (ws w \<noteq> None) = (state w \<in> {Connecting, Connected, Disconnecting}))
     (run n no_listeners ins (init u opts))"
    by simp
  with a show ?thesis by blast
qed

section \<open>No command raises\<close>

lemma scheduleReconnect_returns:
  assumes "never_raises em"
  shows "\<exists>w'. scheduleReconnect em w = Returned w'"
proof (cases "reconnectOptions w")
  case None
  then show ?thesis by (simp add: scheduleReconnect_def)
next
  case (Some opts)
  let ?w3 = "(console_out Log ''[WebSocketClient] Attempting to reconnect''
               (w\<lparr>reconnectAttempts := plus64 (reconnectAttempts w) (Finite 1)\<rparr>))
             \<lparr>state := Reconnecting, isReconnectingAttempt := True\<rparr>"
  from assms have "returns (\<lambda>w'. True) (em (EvReconnecting (reconnectAttempts ?w3)) ?w3)"
    by (simp add: never_raises_def)
  then obtain w4
    where "em (EvReconnecting (reconnectAttempts ?w3)) ?w3 = Returned w4"
    by (cases "em (EvReconnecting (reconnectAttempts ?w3)) ?w3") simp_all
  with Some show ?thesis
    by (simp add: scheduleReconnect_def Let_def setTimeout_def)
qed

lemma connect_failure_emits:
  assumes "state w \<in> {Idle, Reconnecting}"
  shows "\<exists>w0. connect em (Some e) w = and_then (em (EvError e) w0) (scheduleReconnect em) \<and>
              state w0 = Idle \<and> \<not> isReconnectingAttempt w0 \<and> events w0 = events w \<and>
              reconnectTimeoutId w0 = None \<and> ws w0 = ws w \<and> sockets w0 = sockets w \<and>
              reconnectAttempts w0 = reconnectAttempts w \<and>
              reconnectOptions w0 = reconnectOptions w \<and> fresh w0 = fresh w \<and>
              timers w0 = (case reconnectTimeoutId w of None \<Rightarrow> timers w
                           | Some t \<Rightarrow> filter (\<lambda>p. fst p \<noteq> t) (timers w))"
  using assms
  by (cases "reconnectTimeoutId w")
     (auto simp add: connect_def new_WebSocket_def clearTimeout_def console_out_def Let_def)

lemma connect_returns:
  assumes "never_raises em"
  shows "\<exists>w'. connect em thr w = Returned w'"
proof (cases "state w \<in> {Idle, Reconnecting}")
  case False
  then have "connect em thr w = Returned w"
    by (cases "state w") (simp_all add: connect_def)
  then show ?thesis by blast
next
  case True
  show ?thesis
  proof (cases thr)
    case None
    with True show ?thesis
      by (auto simp add: connect_def new_WebSocket_def Let_def)
  next
    case (Some e)
    from connect_failure_emits [OF True] obtain w0
      where c: "connect em (Some e) w = and_then (em (EvError e) w0) (scheduleReconnect em)"
      by blast
    from assms have "returns (\<lambda>w'. True) (em (EvError e) w0)"
      by (simp add: never_raises_def)
    then obtain w1 where "em (EvError e) w0 = Returned w1"
      by (cases "em (EvError e) w0") simp_all
    with c Some scheduleReconnect_returns [OF assms, of w1] show ?thesis
      by simp
  qed
qed

lemma sendMessage_returns:
  assumes "never_raises em"
  shows "\<exists>w'. sendMessage em d thr w = Returned w'"
proof (cases thr)
  case None
  then show ?thesis
    by (simp add: sendMessage_def ws_send_def)
next
  case (Some e)
  let ?w1 = "console_out Err ''[WebSocketClient] Failed to send message:'' w"
  from assms have "returns (\<lambda>w'. True) (em (EvError e) ?w1)"
    by (simp add: never_raises_def)
  then obtain w2 where "em (EvError e) ?w1 = Returned w2"
    by (cases "em (EvError e) ?w1") simp_all
  with Some show ?thesis
    by (simp add: sendMessage_def ws_send_def)
qed

lemma disconnect_returns: "\<exists>w'. disconnect w = Returned w'"
  by (simp add: disconnect_def Let_def)

lemma never_raises_no_listeners: "never_raises (emit n no_listeners)"
  by (simp add: never_raises_def)

lemma run_no_listeners_returns: "\<exists>w'. run n no_listeners ins w = Returned w'"
proof (induction ins arbitrary: w)
  case Nil
  show ?case by simp
next
  case (Cons i ins)
  have "\<exists>w1. step n no_listeners i w = Returned w1"
  proof (cases i)
    case (CallConnect thr)
    with connect_returns [OF never_raises_no_listeners] show ?thesis by simp
  next
    case CallDisconnect
    with disconnect_returns show ?thesis by simp
  next
    case (CallSend d thr)
    with sendMessage_returns [OF never_raises_no_listeners] show ?thesis by simp
  next
    case (SockOpen s)
    then show ?thesis by (simp add: handleOpen_def Let_def)
  next
    case (SockMessage s d)
    then show ?thesis by (simp add: handleMessage_def)
  next
    case (SockError s ev)
    then show ?thesis by (simp add: handleError_def Let_def)
  next
    case (SockClose s ev)
    have "\<exists>w1. handleClose (emit n no_listeners) ev v = Returned w1" for v
      using scheduleReconnect_returns [OF never_raises_no_listeners, of n]
      by (simp add: handleClose_def Let_def)
    with SockClose show ?thesis by simp
  next
    case (TimerFire t thr)
    have "\<exists>w1. timerCallback (emit n no_listeners) thr v = Returned w1" for v
      using connect_returns [OF never_raises_no_listeners, of n]
      by (simp add: timerCallback_def Let_def)
    with TimerFire show ?thesis by simp
  qed
  then obtain w1 where "step n no_listeners i w = Returned w1" by blast
  with Cons.IH [of w1] show ?case by simp
qed

text \<open>
  Claim C6 as stated: no public command ever raises to its caller, and a throwing
  transport constructor inside \<open>connect()\<close> becomes an Error notification plus a
  scheduled retry.  It fails when a listener of the Error notification throws: \<open>emit\<close>
  is called in the catch block with nothing around it, so the listener's exception
  leaves \<open>connect()\<close>, and the retry scheduler is not entered (state Idle, no timer).
\<close>

theorem commands_never_raise_counterexample:
  "rejected_connect = Raised (JsError ''listener failed'') (world_of rejected_connect) \<and>
   state (world_of rejected_connect) = Idle \<and>
   timers (world_of rejected_connect) = [] \<and>
   reconnectTimeoutId (world_of rejected_connect) = None \<and>
   events (world_of rejected_connect) = [EvError (JsError ''SyntaxError'')]"
  by (simp add: rejected_connect_def model_defs scenario_defs throw_on_error_def
      emit_throwing)

text \<open>
  Claim C6, amended.  When \<open>emit\<close> returns normally from every notification (no
  listener throws), \<open>connect()\<close> and \<open>sendMessage()\<close> return normally, in whatever world
  and whatever the transport does; \<open>disconnect()\<close> always does; and with no listener
  registered no execution raises.  Every failure becomes a notification: when the
  transport constructor throws \<open>e\<close> inside a \<open>connect()\<close> that went past its guard, the
  state is set back to Idle and the reconnect flag cleared, no transport is created, the
  Error notification carrying \<open>e\<close> is emitted in that world, and then the retry
  scheduler is entered; when \<open>send\<close> throws \<open>e\<close> in state Connected, the Error
  notification carrying \<open>e\<close> is emitted and nothing else is done.  With no listener
  registered, a retry policy configured and attempts left, the failed \<open>connect()\<close>
  returns in state Reconnecting with the Error notification followed by the Reconnecting
  notification and with the retry timer pending.
\<close>

theorem commands_never_raise:
  "(never_raises em \<longrightarrow>
      (\<exists>w'. connect em thr w = Returned w') \<and> (\<exists>w'. sendMessage em d thr w = Returned w')) \<and>
   (\<exists>w'. disconnect w = Returned w') \<and>
   (\<exists>w'. run n no_listeners ins w = Returned w') \<and>
   (state w \<in> {Idle, Reconnecting} \<longrightarrow>
      (\<exists>w0. connect em (Some e) w = and_then (em (EvError e) w0) (scheduleReconnect em) \<and>
            state w0 = Idle \<and> \<not> isReconnectingAttempt w0 \<and> events w0 = events w \<and>
            reconnectTimeoutId w0 = None \<and> ws w0 = ws w \<and> sockets w0 = sockets w \<and>
            reconnectAttempts w0 = reconnectAttempts w \<and>
            reconnectOptions w0 = reconnectOptions w \<and> fresh w0 = fresh w)) \<and>
   (state w = Connected \<and> ws w = Some s \<longrightarrow>
      sendMessage em d (Some e) w =
        em (EvError e)
          (w\<lparr>console := console w @
               [(Err, ''[WebSocketClient] Failed to send message:'')]\<rparr>)) \<and>
   (state w \<in> {Idle, Reconnecting} \<and> reconnectOptions w = Some opts \<and>
    \<not> ge64 (reconnectAttempts w) (retries opts) \<longrightarrow>
      (\<exists>w'. connect (emit n no_listeners) (Some e) w = Returned w' \<and>
            state w' = Reconnecting \<and> ws w' = ws w \<and> sockets w' = sockets w \<and>
            events w' = events w @
              [EvError e, EvReconnecting (plus64 (reconnectAttempts w) (Finite 1))] \<and>
            reconnectTimeoutId w' = Some (fresh w) \<and>
            (fresh w, if increaseDelay opts
                      then times64 (delay opts) (plus64 (reconnectAttempts w) (Finite 1))
                      else delay opts) \<in> set (timers w')))"
proof -
  have p1: "(\<exists>w'. connect em thr w = Returned w') \<and> (\<exists>w'. sendMessage em d thr w = Returned w')"
    if "never_raises em"
    using that connect_returns sendMessage_returns by blast
  have p4: "sendMessage em d (Some e) w =
        em (EvError e)
          (w\<lparr>console := console w @
               [(Err, ''[WebSocketClient] Failed to send message:'')]\<rparr>)"
    if "state w = Connected \<and> ws w = Some s"
    using that by (simp add: sendMessage_def isConnected_def ws_send_def console_out_def)
  have p5: "\<exists>w'. connect (emit n no_listeners) (Some e) w = Returned w' \<and>
            state w' = Reconnecting \<and> ws w' = ws w \<and> sockets w' = sockets w \<and>
            events w' = events w @
              [EvError e, EvReconnecting (plus64 (reconnectAttempts w) (Finite 1))] \<and>
            reconnectTimeoutId w' = Some (fresh w) \<and>
            (fresh w, if increaseDelay opts
                      then times64 (delay opts) (plus64 (reconnectAttempts w) (Finite 1))
                      else delay opts) \<in> set (timers w')"
    if a: "state w \<in> {Idle, Reconnecting} \<and> reconnectOptions w = Some opts \<and>
           \<not> ge64 (reconnectAttempts w) (retries opts)"
  proof -
    from a connect_failure_emits [of w "emit n no_listeners" e] obtain w0
      where c: "connect (emit n no_listeners) (Some e) w =
                  and_then (emit n no_listeners (EvError e) w0)
                    (scheduleReconnect (emit n no_listeners))"
        and f: "state w0 = Idle" "events w0 = events w" "reconnectTimeoutId w0 = None"
          "ws w0 = ws w" "sockets w0 = sockets w"
          "reconnectAttempts w0 = reconnectAttempts w"
          "reconnectOptions w0 = reconnectOptions w" "fresh w0 = fresh w"
      by blast
    let ?r = "scheduleReconnect (emit n no_listeners) (w0\<lparr>events := events w0 @ [EvError e]\<rparr>)"
    from a f have "returns (\<lambda>w'. state w' = Reconnecting \<and> ws w' = ws w \<and>
        sockets w' = sockets w \<and>
        events w' = events w @
          [EvError e, EvReconnecting (plus64 (reconnectAttempts w) (Finite 1))] \<and>
        reconnectTimeoutId w' = Some (fresh w) \<and>
        (fresh w, if increaseDelay opts
                  then times64 (delay opts) (plus64 (reconnectAttempts w) (Finite 1))
                  else delay opts) \<in> set (timers w')) ?r"
      by (simp add: scheduleReconnect_def console_out_def setTimeout_def Let_def)
    with c show ?thesis
      by (cases ?r) simp_all
  qed
  from p1 disconnect_returns [of w] run_no_listeners_returns [of n ins w]
    connect_failure_emits [of w em e] p4 p5
  show ?thesis by blast
qed

theorem commands_never_raise_witness:
  "never_raises (emit 0 no_listeners) \<and>
   state dropped_world \<in> {Idle, Reconnecting} \<and>
   reconnectOptions dropped_world = Some linear_backoff \<and>
   \<not> ge64 (reconnectAttempts dropped_world) (retries linear_backoff) \<and>
   (\<exists>w'. connect (emit 0 no_listeners) (Some (JsError ''SyntaxError'')) dropped_world =
           Returned w' \<and>
         state w' = Reconnecting \<and> ws w' = None \<and> sockets w' = [] \<and>
         events w' = [EvConnected, EvDisconnected True 1000, EvReconnecting (Finite 1),
                      EvError (JsError ''SyntaxError''), EvReconnecting (Finite 2)] \<and>
         reconnectTimeoutId w' = Some 2 \<and> (2, Finite 100) \<in> set (timers w')) \<and>
   state connected_world = Connected \<and> ws connected_world = Some 0 \<and>
   sendMessage (emit 0 no_listeners) (Text ''ping'') (Some (JsError ''InvalidStateError''))
     connected_world =
   emit 0 no_listeners (EvError (JsError ''InvalidStateError''))
     (connected_world\<lparr>console := console connected_world @
        [(Err, ''[WebSocketClient] Failed to send message:'')]\<rparr>)"
proof -
  have h: "state dropped_world \<in> {Idle, Reconnecting} \<and>
      reconnectOptions dropped_world = Some linear_backoff \<and>
      \<not> ge64 (reconnectAttempts dropped_world) (retries linear_backoff)"
    by (simp add: dropped_world_fields linear_backoff_def)
  have g: "state connected_world = Connected \<and> ws connected_world = Some 0"
    by (simp add: connected_world_fields)
  from h commands_never_raise
    [of "emit 0 no_listeners" None dropped_world "Text []" 0 "[]" "JsError ''SyntaxError''"
      0 linear_backoff]
  have "\<exists>w'. connect (emit 0 no_listeners) (Some (JsError ''SyntaxError'')) dropped_world =
        Returned w' \<and>
      state w' = Reconnecting \<and> ws w' = ws dropped_world \<and>
      sockets w' = sockets dropped_world \<and>
      events w' = events dropped_world @
        [EvError (JsError ''SyntaxError''),
         EvReconnecting (plus64 (reconnectAttempts dropped_world) (Finite 1))] \<and>
      reconnectTimeoutId w' = Some (fresh dropped_world) \<and>
      (fresh dropped_world,
       if increaseDelay linear_backoff
       then times64 (delay linear_backoff)
              (plus64 (reconnectAttempts dropped_world) (Finite 1))
       else delay linear_backoff) \<in> set (timers w')"
    by blast
  then have a: "\<exists>w'. connect (emit 0 no_listeners) (Some (JsError ''SyntaxError''))
        dropped_world = Returned w' \<and>
      state w' = Reconnecting \<and> ws w' = None \<and> sockets w' = [] \<and>
      events w' = [EvConnected, EvDisconnected True 1000, EvReconnecting (Finite 1),
                   EvError (JsError ''SyntaxError''), EvReconnecting (Finite 2)] \<and>
      reconnectTimeoutId w' = Some 2 \<and> (2, Finite 100) \<in> set (timers w')"
    by (simp add: dropped_world_fields linear_backoff_def times64_def round64_numeral)
  from g commands_never_raise
    [of "emit 0 no_listeners" None connected_world "Text ''ping''" 0 "[]"
      "JsError ''InvalidStateError''" 0 linear_backoff]
  have b: "sendMessage (emit 0 no_listeners) (Text ''ping'')
      (Some (JsError ''InvalidStateError'')) connected_world =
    emit 0 no_listeners (EvError (JsError ''InvalidStateError''))
      (connected_world\<lparr>console := console connected_world @
         [(Err, ''[WebSocketClient] Failed to send message:'')]\<rparr>)"
    by blast
  from never_raises_no_listeners [of 0] h g a b show ?thesis by blast
qed

section \<open>The retry timer\<close>

text \<open>
  Claim C5 as stated: at every point of every execution at most one retry timer is
  pending.  It fails when a listener calls \<open>connect()\<close> from inside the Reconnecting
  notification and the transport constructor throws: the scheduler has checked that no
  timer is pending before it emits, the nested \<open>connect()\<close> fails and schedules a retry
  of its own (timer 1, delay 100), and the outer scheduler then sets its timer as well
  (timer 2, delay 50).  Two timers are pending, and the object holds the handle of the
  second only.
\<close>

theorem at_most_one_retry_timer_counterexample:
  "timers overtaken_world = [(1, Finite 100), (2, Finite 50)] \<and>
   reconnectTimeoutId overtaken_world = Some 2 \<and>
   \<not> length (timers overtaken_world) \<le> 1"
  by (simp add: overtaken_world_def model_defs scenario_defs connect_on_first_retry_def)

text \<open>
  Claim C5, amended.  When no listener calls a command of the client from inside a
  notification (listeners may throw), then in every world an execution reaches at most
  one retry timer is pending, and it is the one whose handle the object holds.
  Entering the retry scheduler in such a world leaves at most one timer pending, and
  leaves the pending timers as they are when one is outstanding.  A \<open>connect()\<close> that
  goes past its guard (state Idle or Reconnecting) and whose transport is constructed
  returns with no timer pending and no timer handle, holding the one new transport.
\<close>

theorem at_most_one_retry_timer:
  "length (timers (world_of (run n (throwing T) ins (init u opts)))) \<le> 1 \<and>
   map fst (timers (world_of (run n (throwing T) ins (init u opts)))) =
     (case reconnectTimeoutId (world_of (run n (throwing T) ins (init u opts))) of
        None \<Rightarrow> [] | Some t \<Rightarrow> [t]) \<and>
   length (timers (world_of (scheduleReconnect (emit n (throwing T))
                      (world_of (run n (throwing T) ins (init u opts)))))) \<le> 1 \<and>
   (timers (world_of (run n (throwing T) ins (init u opts))) \<noteq> [] \<longrightarrow>
      timers (world_of (scheduleReconnect (emit n (throwing T))
                (world_of (run n (throwing T) ins (init u opts))))) =
      timers (world_of (run n (throwing T) ins (init u opts)))) \<and>
   (state (world_of (run n (throwing T) ins (init u opts))) \<in> {Idle, Reconnecting} \<longrightarrow>
      returns (\<lambda>w'. timers w' = [] \<and> reconnectTimeoutId w' = None \<and>
                    sockets w' = [fresh (world_of (run n (throwing T) ins (init u opts)))] \<and>
                    ws w' = Some (fresh (world_of (run n (throwing T) ins (init u opts)))))
        (connect (emit n (throwing T)) None
           (world_of (run n (throwing T) ins (init u opts)))))"
proof -
  let ?w = "world_of (run n (throwing T) ins (init u opts))"
  have c: "coherent ?w"
    by (rule coherent_run [OF coherent_init])
  from c have 1: "length (timers ?w) \<le> 1 \<and>
      map fst (timers ?w) = (case reconnectTimeoutId ?w of None \<Rightarrow> [] | Some t \<Rightarrow> [t])"
    by (cases "state ?w"; cases "reconnectTimeoutId ?w"; cases "timers ?w")
       (simp_all add: coherent_def)
  from c have 2: "length (timers (world_of (scheduleReconnect (emit n (throwing T)) ?w))) \<le> 1 \<and>
      (timers ?w \<noteq> [] \<longrightarrow>
         timers (world_of (scheduleReconnect (emit n (throwing T)) ?w)) = timers ?w)"
    by (cases "state ?w"; cases "reconnectOptions ?w"; cases "reconnectTimeoutId ?w";
        cases "timers ?w")
       (simp_all add: coherent_def scheduleReconnect_def console_out_def emit_throwing
          throw_after_def setTimeout_def Let_def split: option.split)
  from c have 3: "state ?w \<in> {Idle, Reconnecting} \<longrightarrow>
      returns (\<lambda>w'. timers w' = [] \<and> reconnectTimeoutId w' = None \<and>
                    sockets w' = [fresh ?w] \<and> ws w' = Some (fresh ?w))
        (connect (emit n (throwing T)) None ?w)"
    by (cases "state ?w"; cases "reconnectTimeoutId ?w")
       (simp_all add: coherent_def connect_def new_WebSocket_def clearTimeout_def
          console_out_def Let_def filter_only_timer)
  from 1 2 3 show ?thesis by blast
qed

theorem at_most_one_retry_timer_witness:
  "world_of (run 0 (throwing (\<lambda>e w. None))
     [CallConnect None, SockOpen 0, SockClose 0 server_close]
     (init MOCK_WEBSOCKET_URL (Some linear_backoff))) = dropped_world \<and>
   timers dropped_world = [(1, Finite 50)] \<and> state dropped_world \<in> {Idle, Reconnecting} \<and>
   timers (world_of (scheduleReconnect (emit 0 (throwing (\<lambda>e w. None))) dropped_world)) =
     [(1, Finite 50)] \<and>
   returns (\<lambda>w'. timers w' = [] \<and> reconnectTimeoutId w' = None \<and> sockets w' = [2] \<and>
                 ws w' = Some 2)
     (connect (emit 0 (throwing (\<lambda>e w. None))) None dropped_world)"
proof -
  have r: "world_of (run 0 (throwing (\<lambda>e w. None))
      [CallConnect None, SockOpen 0, SockClose 0 server_close]
      (init MOCK_WEBSOCKET_URL (Some linear_backoff))) = dropped_world"
    by (simp add: dropped_world_def model_defs scenario_defs emit_throwing)
  have h: "timers dropped_world = [(1, Finite 50)] \<and>
      state dropped_world \<in> {Idle, Reconnecting} \<and> fresh dropped_world = 2"
    by (simp add: dropped_world_fields)
  from at_most_one_retry_timer
    [of 0 "\<lambda>e w. None" "[CallConnect None, SockOpen 0, SockClose 0 server_close]"
      MOCK_WEBSOCKET_URL "Some linear_backoff"]
  have "(timers dropped_world \<noteq> [] \<longrightarrow>
           timers (world_of (scheduleReconnect (emit 0 (throwing (\<lambda>e w. None)))
                     dropped_world)) = timers dropped_world) \<and>
        (state dropped_world \<in> {Idle, Reconnecting} \<longrightarrow>
           returns (\<lambda>w'. timers w' = [] \<and> reconnectTimeoutId w' = None \<and>
                         sockets w' = [fresh dropped_world] \<and>
                         ws w' = Some (fresh dropped_world))
             (connect (emit 0 (throwing (\<lambda>e w. None))) None dropped_world))"
    unfolding r by blast
  with h have "timers (world_of (scheduleReconnect (emit 0 (throwing (\<lambda>e w. None)))
                  dropped_world)) = [(1, Finite 50)] \<and>
      returns (\<lambda>w'. timers w' = [] \<and> reconnectTimeoutId w' = None \<and> sockets w' = [2] \<and>
                    ws w' = Some 2)
        (connect (emit 0 (throwing (\<lambda>e w. None))) None dropped_world)"
    by simp
  with r h show ?thesis by blast
qed

section \<open>The guard of connect\<close>

text \<open>
  Claim C8.  In each of the states Connecting, Connected and Disconnecting a call of
  \<open>connect()\<close> returns in the world it was called in: no transport is created, nothing
  is emitted, and the state, the attempt counter, the reconnect flag and the pending
  timer are what they were, whether or not the transport constructor would have thrown
  and whatever listeners are registered.
\<close>

theorem connect_is_noop_when_busy:
  "state w \<in> {Connecting, Connected, Disconnecting} \<Longrightarrow> connect em thr w = Returned w"
  by (auto simp add: connect_def)

theorem connect_is_noop_when_busy_witness:
  "state connected_world \<in> {Connecting, Connected, Disconnecting} \<and>
   connect (emit 0 no_listeners) (Some (JsError ''SyntaxError'')) connected_world =
     Returned connected_world \<and>
   connect (emit (Suc 0) reconnect_on_drop) None connected_world = Returned connected_world"
proof -
  have h: "state connected_world \<in> {Connecting, Connected, Disconnecting}"
    by (simp add: connected_world_fields)
  from connect_is_noop_when_busy [OF h] h show ?thesis by simp
qed

section \<open>The delay of a retry\<close>

lemma scheduleReconnect_schedules:
  assumes "reconnectOptions w = Some opts"
    and "reconnectTimeoutId w = None"
    and "state w \<noteq> Disconnecting"
    and "1 \<le> k" and "k \<le> 2 ^ 53"
    and "reconnectAttempts w = jsnum (k - 1)"
    and "\<not> ge64 (jsnum (k - 1)) (retries opts)"
  shows "returns (\<lambda>w'. timers w' =
                    timers w @ [(fresh w, if increaseDelay opts
                                          then times64 (delay opts) (jsnum k)
                                          else delay opts)] \<and>
                  events w' = events w @ [EvReconnecting (jsnum k)] \<and>
                  reconnectAttempts w' = jsnum k \<and>
                  reconnectTimeoutId w' = Some (fresh w) \<and> state w' = Reconnecting)
           (scheduleReconnect (emit n no_listeners) w)"
proof -
  from assms(4,5) have "plus64 (jsnum (k - 1)) (Finite 1) = jsnum (k - 1 + 1)"
    by (intro plus64_jsnum) simp_all
  then have "plus64 (jsnum (k - 1)) (Finite 1) = jsnum k" by simp
  with assms(1,2,3,6,7) show ?thesis
    by (simp add: scheduleReconnect_def console_out_def setTimeout_def Let_def)
qed

lemma exact_delay:
  "(increaseDelay opts \<and> delay opts = jsnum d \<and> 0 \<le> d \<and> 1 \<le> k \<and> d * k \<le> 2 ^ 53 \<longrightarrow>
      (if increaseDelay opts then times64 (delay opts) (jsnum k) else delay opts) =
        jsnum (d * k)) \<and>
   (\<not> increaseDelay opts \<longrightarrow>
      (if increaseDelay opts then times64 (delay opts) (jsnum k) else delay opts) =
        delay opts) \<and>
   (increaseDelay opts \<and> delay opts = jsnum 50 \<and> 1 \<le> k \<and> k \<le> 180143985094819 \<longrightarrow>
      (if increaseDelay opts then times64 (delay opts) (jsnum k) else delay opts) =
        jsnum (50 * k))"
proof -
  have "times64 (jsnum 50) (jsnum k) = jsnum (50 * k)"
    if "1 \<le> k" and "k \<le> 180143985094819"
    using that by (intro times64_jsnum) simp_all
  then show ?thesis
    by (auto simp add: times64_jsnum)
qed

text \<open>
  Claim C9 as stated: for every retry policy and every attempt number \<open>k\<close> the delay is
  \<open>baseDelay * k\<close> when the delay grows.  The product is computed in binary64 and is
  rounded: with base delay \<open>2 ^ 53 - 1\<close> the delay scheduled for attempt 3, after three
  drops, is 27021597764222972 and not 27021597764222973.
\<close>

theorem retry_delay_counterexample:
  "increaseDelay huge_delay \<and> delay huge_delay = Finite 9007199254740991 \<and>
   attempts_announced (events third_retry_world) = [Finite 1, Finite 2, Finite 3] \<and>
   timers third_retry_world = [(5, Finite 27021597764222972)] \<and>
   timers third_retry_world \<noteq> [(5, Finite (9007199254740991 * 3))]"
  by (simp add: third_retry_world_def model_defs scenario_defs huge_delay_def round64_c)

text \<open>
  Claim C9, amended.  When attempt number \<open>k\<close> is scheduled (\<open>k\<close> from 1 to \<open>2 ^ 53\<close>, the
  counter standing at \<open>k - 1\<close> and not yet at the configured number of retries), after a
  drop of the transport or after a failure of the transport constructor, with no
  listener registered, attempt \<open>k\<close> is announced and one timer is pending, whose delay is
  the binary64 product of the base delay and \<open>k\<close> when the delay grows and the base
  delay otherwise.  For a non-negative integer base delay \<open>d\<close> with \<open>d * k\<close> at most
  \<open>2 ^ 53\<close> the product is exactly \<open>d * k\<close>; with a growing delay and base delay 50 the
  delay is exactly \<open>50 * k\<close> for every \<open>k\<close> up to 180143985094819.
\<close>

theorem retry_delay:
  assumes "run n no_listeners ins (init u opts0) = Returned w"
    and "reconnectOptions w = Some opts"
    and "1 \<le> k" and "k \<le> 2 ^ 53"
    and "reconnectAttempts w = jsnum (k - 1)"
    and "\<not> ge64 (jsnum (k - 1)) (retries opts)"
  shows "(live s w \<and> state w \<noteq> Disconnecting \<longrightarrow>
            returns (\<lambda>w'. timers w' =
                        [(fresh w, if increaseDelay opts then times64 (delay opts) (jsnum k)
                                   else delay opts)] \<and>
                      events w' = events w @
                        [EvDisconnected (wasClean ev) (code ev), EvReconnecting (jsnum k)] \<and>
                      reconnectAttempts w' = jsnum k \<and> state w' = Reconnecting)
              (step n no_listeners (SockClose s ev) w)) \<and>
         (state w \<in> {Idle, Reconnecting} \<longrightarrow>
            returns (\<lambda>w'. timers w' =
                        [(fresh w, if increaseDelay opts then times64 (delay opts) (jsnum k)
                                   else delay opts)] \<and>
                      events w' = events w @ [EvError e, EvReconnecting (jsnum k)] \<and>
                      reconnectAttempts w' = jsnum k \<and> state w' = Reconnecting)
              (connect (emit n no_listeners) (Some e) w)) \<and>
         (increaseDelay opts \<and> delay opts = jsnum d \<and> 0 \<le> d \<and> d * k \<le> 2 ^ 53 \<longrightarrow>
            (if increaseDelay opts then times64 (delay opts) (jsnum k) else delay opts) =
              jsnum (d * k)) \<and>
         (\<not> increaseDelay opts \<longrightarrow>
            (if increaseDelay opts then times64 (delay opts) (jsnum k) else delay opts) =
              delay opts) \<and>
         (increaseDelay opts \<and> delay opts = jsnum 50 \<and> k \<le> 180143985094819 \<longrightarrow>
            (if increaseDelay opts then times64 (delay opts) (jsnum k) else delay opts) =
              jsnum (50 * k))"
proof -
  have "returns consistent (run n no_listeners ins (init u opts0))"
    by (rule consistent_run [OF consistent_init])
  with assms(1) have c: "consistent w" by simp
  have p1: "returns (\<lambda>w'. timers w' =
                        [(fresh w, if increaseDelay opts then times64 (delay opts) (jsnum k)
                                   else delay opts)] \<and>
                      events w' = events w @
                        [EvDisconnected (wasClean ev) (code ev), EvReconnecting (jsnum k)] \<and>
                      reconnectAttempts w' = jsnum k \<and> state w' = Reconnecting)
              (step n no_listeners (SockClose s ev) w)"
    if a: "live s w \<and> state w \<noteq> Disconnecting"
  proof -
    let ?w4 = "w\<lparr>sockets := [],
                  console := console w @
                    [(Warn, ''[WebSocketClient] Connection closed unexpectedly.'')],
                  ws := None, state := Idle,
                  events := events w @ [EvDisconnected (wasClean ev) (code ev)]\<rparr>"
    from c a assms(2) have s: "step n no_listeners (SockClose s ev) w =
        scheduleReconnect (emit n no_listeners) ?w4 \<and> timers w = []"
      by (cases "state w")
         (simp_all add: consistent_def live_def handleClose_def console_out_def Let_def)
    from assms(2,5) have "reconnectOptions ?w4 = Some opts"
      and "reconnectTimeoutId ?w4 = None \<longrightarrow> True"
      and "state ?w4 \<noteq> Disconnecting" and "reconnectAttempts ?w4 = jsnum (k - 1)"
      by simp_all
    moreover from c a have "reconnectTimeoutId ?w4 = None"
      by (cases "state w") (simp_all add: consistent_def live_def)
    ultimately have "returns (\<lambda>w'. timers w' =
                    timers ?w4 @ [(fresh ?w4, if increaseDelay opts
                                          then times64 (delay opts) (jsnum k)
                                          else delay opts)] \<and>
                  events w' = events ?w4 @ [EvReconnecting (jsnum k)] \<and>
                  reconnectAttempts w' = jsnum k \<and>
                  reconnectTimeoutId w' = Some (fresh ?w4) \<and> state w' = Reconnecting)
           (scheduleReconnect (emit n no_listeners) ?w4)"
      using assms(3,4,6) by (intro scheduleReconnect_schedules) simp_all
    with s show ?thesis
      by (cases "scheduleReconnect (emit n no_listeners) ?w4") simp_all
  qed
  have p2: "returns (\<lambda>w'. timers w' =
                        [(fresh w, if increaseDelay opts then times64 (delay opts) (jsnum k)
                                   else delay opts)] \<and>
                      events w' = events w @ [EvError e, EvReconnecting (jsnum k)] \<and>
                      reconnectAttempts w' = jsnum k \<and> state w' = Reconnecting)
              (connect (emit n no_listeners) (Some e) w)"
    if a: "state w \<in> {Idle, Reconnecting}"
  proof -
    from a connect_failure_emits [of w "emit n no_listeners" e] obtain w0
      where s: "connect (emit n no_listeners) (Some e) w =
                  and_then (emit n no_listeners (EvError e) w0)
                    (scheduleReconnect (emit n no_listeners))"
        and f: "state w0 = Idle" "events w0 = events w" "reconnectTimeoutId w0 = None"
          "reconnectAttempts w0 = reconnectAttempts w"
          "reconnectOptions w0 = reconnectOptions w" "fresh w0 = fresh w"
        and t: "timers w0 = (case reconnectTimeoutId w of None \<Rightarrow> timers w
                             | Some t \<Rightarrow> filter (\<lambda>p. fst p \<noteq> t) (timers w))"
      by blast
    from c a t have t0: "timers w0 = []"
      by (cases "state w"; cases "reconnectTimeoutId w")
         (simp_all add: consistent_def filter_only_timer)
    let ?w6 = "w0\<lparr>events := events w0 @ [EvError e]\<rparr>"
    from f assms(2,5) have "reconnectOptions ?w6 = Some opts"
      and "reconnectTimeoutId ?w6 = None"
      and "state ?w6 \<noteq> Disconnecting" and "reconnectAttempts ?w6 = jsnum (k - 1)"
      by simp_all
    then have "returns (\<lambda>w'. timers w' =
                    timers ?w6 @ [(fresh ?w6, if increaseDelay opts
                                          then times64 (delay opts) (jsnum k)
                                          else delay opts)] \<and>
                  events w' = events ?w6 @ [EvReconnecting (jsnum k)] \<and>
                  reconnectAttempts w' = jsnum k \<and>
                  reconnectTimeoutId w' = Some (fresh ?w6) \<and> state w' = Reconnecting)
           (scheduleReconnect (emit n no_listeners) ?w6)"
      using assms(3,4,6) by (intro scheduleReconnect_schedules) simp_all
    with s f t0 show ?thesis
      by (cases "scheduleReconnect (emit n no_listeners) ?w6") simp_all
  qed
  from p1 p2 exact_delay [of opts d k] assms(3) show ?thesis by blast
qed

theorem retry_delay_witness:
  "run 0 no_listeners
     [CallConnect None, SockOpen 0, SockClose 0 server_close, TimerFire 1 None]
     (init MOCK_WEBSOCKET_URL (Some linear_backoff)) = Returned retrying_world \<and>
   reconnectOptions retrying_world = Some linear_backoff \<and>
   (1::int) \<le> 2 \<and> (2::int) \<le> 2 ^ 53 \<and> reconnectAttempts retrying_world = jsnum (2 - 1) \<and>
   \<not> ge64 (jsnum (2 - 1)) (retries linear_backoff) \<and>
   live 2 retrying_world \<and> state retrying_world \<noteq> Disconnecting \<and>
   increaseDelay linear_backoff \<and> delay linear_backoff = jsnum 50 \<and>
   returns (\<lambda>w'. timers w' = [(3, Finite 100)] \<and>
                 events w' = [EvConnected, EvDisconnected True 1000, EvReconnecting (Finite 1),
                              EvDisconnected False 1006, EvReconnecting (Finite 2)])
     (step 0 no_listeners (SockClose 2 \<lparr>code = 1006, reason = [], wasClean = False\<rparr>)
        retrying_world) \<and>
   run 0 no_listeners [CallConnect None, SockOpen 0, SockClose 0 server_close]
     (init MOCK_WEBSOCKET_URL (Some linear_backoff)) = Returned dropped_world \<and>
   reconnectOptions dropped_world = Some linear_backoff \<and>
   reconnectAttempts dropped_world = jsnum (2 - 1) \<and>
   state dropped_world \<in> {Idle, Reconnecting} \<and>
   returns (\<lambda>w'. timers w' = [(2, Finite 100)] \<and>
                 events w' = [EvConnected, EvDisconnected True 1000, EvReconnecting (Finite 1),
                              EvError (JsError ''SyntaxError''), EvReconnecting (Finite 2)])
     (connect (emit 0 no_listeners) (Some (JsError ''SyntaxError'')) dropped_world)"
proof -
  have h2: "reconnectOptions retrying_world = Some linear_backoff"
    and h5: "reconnectAttempts retrying_world = jsnum (2 - 1)"
    by (simp_all add: retrying_world_fields jsnum_def)
  have h3: "(1::int) \<le> 2" and h4: "(2::int) \<le> 2 ^ 53" by simp_all
  have h6: "\<not> ge64 (jsnum (2 - 1)) (retries linear_backoff)"
    and g: "increaseDelay linear_backoff \<and> delay linear_backoff = jsnum 50"
    by (simp_all add: linear_backoff_def jsnum_def)
  have l: "live 2 retrying_world \<and> state retrying_world \<noteq> Disconnecting"
    by (simp add: retrying_world_fields live_def)
  have a0: "(2::int) \<le> 180143985094819" by simp
  let ?r = "step 0 no_listeners (SockClose 2 \<lparr>code = 1006, reason = [], wasClean = False\<rparr>)
              retrying_world"
  from retry_delay [OF run_retrying_world [of 0] h2 h3 h4 h5 h6,
      where s = 2 and ev = "\<lparr>code = 1006, reason = [], wasClean = False\<rparr>" and d = 50
        and e = "JsError []"] l g a0
  have "returns (\<lambda>w'. timers w' =
                   [(fresh retrying_world,
                     if increaseDelay linear_backoff
                     then times64 (delay linear_backoff) (jsnum 2)
                     else delay linear_backoff)] \<and>
                 events w' = events retrying_world @
                   [EvDisconnected (wasClean \<lparr>code = 1006, reason = [], wasClean = False\<rparr>)
                      (code \<lparr>code = 1006, reason = [], wasClean = False\<rparr>),
                    EvReconnecting (jsnum 2)] \<and>
                 reconnectAttempts w' = jsnum 2 \<and> state w' = Reconnecting) ?r \<and>
        (if increaseDelay linear_backoff then times64 (delay linear_backoff) (jsnum 2)
         else delay linear_backoff) = jsnum (50 * 2)"
    by blast
  then have "returns (\<lambda>w'. timers w' = [(3, Finite 100)] \<and>
                 events w' = [EvConnected, EvDisconnected True 1000, EvReconnecting (Finite 1),
                              EvDisconnected False 1006, EvReconnecting (Finite 2)]) ?r"
    by (cases ?r) (simp_all add: retrying_world_fields jsnum_def)
  note first = this
  have k2: "reconnectOptions dropped_world = Some linear_backoff"
    and k5: "reconnectAttempts dropped_world = jsnum (2 - 1)"
    and k7: "state dropped_world \<in> {Idle, Reconnecting}"
    by (simp_all add: dropped_world_fields jsnum_def)
  let ?c = "connect (emit 0 no_listeners) (Some (JsError ''SyntaxError'')) dropped_world"
  from retry_delay [OF run_dropped_world [of 0] k2 h3 h4 k5 h6,
      where s = 0 and ev = server_close and d = 50 and e = "JsError ''SyntaxError''"] k7 g a0
  have "returns (\<lambda>w'. timers w' =
                   [(fresh dropped_world,
                     if increaseDelay linear_backoff
                     then times64 (delay linear_backoff) (jsnum 2)
                     else delay linear_backoff)] \<and>
                 events w' = events dropped_world @
                   [EvError (JsError ''SyntaxError''), EvReconnecting (jsnum 2)] \<and>
                 reconnectAttempts w' = jsnum 2 \<and> state w' = Reconnecting) ?c \<and>
        (if increaseDelay linear_backoff then times64 (delay linear_backoff) (jsnum 2)
         else delay linear_backoff) = jsnum (50 * 2)"
    by blast
  then have second: "returns (\<lambda>w'. timers w' = [(2, Finite 100)] \<and>
                 events w' = [EvConnected, EvDisconnected True 1000, EvReconnecting (Finite 1),
                              EvError (JsError ''SyntaxError''), EvReconnecting (Finite 2)]) ?c"
    by (cases ?c) (simp_all add: dropped_world_fields jsnum_def)
  from run_retrying_world [of 0] run_dropped_world [of 0] h2 h3 h4 h5 h6 l g first k2 k5 k7
    second
  show ?thesis by blast
qed

section \<open>Sending\<close>

text \<open>
  Claim C7.  In every state other than Connected, \<open>sendMessage\<close> returns normally in
  the world it was called in but for one warning on the console, whatever listeners are
  registered: nothing is handed to the transport, nothing is emitted, nothing is stored,
  no field of the object changes.  In state Connected with a transport whose \<open>send\<close>
  throws \<open>e\<close>, it emits the Error notification carrying \<open>e\<close> after one console error
  and does nothing else; with no listener registered it returns normally with exactly
  that notification added, the state and every other field unchanged.  In every world an
  execution reaches in state Connected there is such a transport.
\<close>

theorem send_outside_Connected:
  "(state w \<noteq> Connected \<longrightarrow>
      sendMessage em d thr w =
        Returned (w\<lparr>console := console w @
                 [(Warn, ''[WebSocketClient] Cannot send message. Not connected.'')]\<rparr>)) \<and>
   (state w = Connected \<and> ws w = Some s \<longrightarrow>
      sendMessage (emit n no_listeners) d (Some e) w =
        Returned (w\<lparr>events := events w @ [EvError e],
               console := console w @
                 [(Err, ''[WebSocketClient] Failed to send message:'')]\<rparr>)) \<and>
   returns (\<lambda>v. state v = Connected \<longrightarrow>
              sendMessage (emit n no_listeners) d (Some e) v =
                Returned (v\<lparr>events := events v @ [EvError e],
                       console := console v @
                         [(Err, ''[WebSocketClient] Failed to send message:'')]\<rparr>))
     (run n no_listeners ins (init u opts)) \<and>
   (state w = Connected \<and> ws w = Some s \<longrightarrow>
      sendMessage em d (Some e) w =
        em (EvError e)
          (w\<lparr>console := console w @
               [(Err, ''[WebSocketClient] Failed to send message:'')]\<rparr>))"
proof -
  have p1: "state w \<noteq> Connected \<longrightarrow>
      sendMessage em d thr w =
        Returned (w\<lparr>console := console w @
                 [(Warn, ''[WebSocketClient] Cannot send message. Not connected.'')]\<rparr>)"
    by (simp add: sendMessage_def isConnected_def console_out_def)
  have p2: "sendMessage (emit n no_listeners) d (Some e) v =
        Returned (v\<lparr>events := events v @ [EvError e],
               console := console v @
                 [(Err, ''[WebSocketClient] Failed to send message:'')]\<rparr>)"
    if "state v = Connected" and "ws v = Some s'" for v s'
    using that by (simp add: sendMessage_def isConnected_def ws_send_def console_out_def)
  have "returns consistent (run n no_listeners ins (init u opts))"
    by (rule consistent_run [OF consistent_init])
  then obtain v where r: "run n no_listeners ins (init u opts) = Returned v"
    and c: "consistent v"
    by (cases "run n no_listeners ins (init u opts)") simp_all
  have p3: "returns (\<lambda>v. state v = Connected \<longrightarrow>
              sendMessage (emit n no_listeners) d (Some e) v =
                Returned (v\<lparr>events := events v @ [EvError e],
                       console := console v @
                         [(Err, ''[WebSocketClient] Failed to send message:'')]\<rparr>))
     (run n no_listeners ins (init u opts))"
  proof (cases "state v = Connected")
    case True
    with c obtain s' where "ws v = Some s'"
      by (cases "ws v") (simp_all add: consistent_def)
    from p2 [OF True this] r show ?thesis by simp
  next
    case False
    with r show ?thesis by simp
  qed
  have p4: "state w = Connected \<and> ws w = Some s \<longrightarrow>
      sendMessage em d (Some e) w =
        em (EvError e)
          (w\<lparr>console := console w @
               [(Err, ''[WebSocketClient] Failed to send message:'')]\<rparr>)"
    by (simp add: sendMessage_def isConnected_def ws_send_def console_out_def)
  from p1 p2 [of w s] p3 p4 show ?thesis by blast
qed

theorem send_outside_Connected_witness:
  "state dropped_world \<noteq> Connected \<and>
   sendMessage (emit 0 throw_on_error) (Text ''ping'') None dropped_world =
     Returned (dropped_world\<lparr>console := console dropped_world @
            [(Warn, ''[WebSocketClient] Cannot send message. Not connected.'')]\<rparr>) \<and>
   state connected_world = Connected \<and> ws connected_world = Some 0 \<and>
   sendMessage (emit 0 no_listeners) (Text ''ping'') (Some (JsError ''InvalidStateError''))
     connected_world =
     Returned
       (connected_world\<lparr>events := [EvConnected, EvError (JsError ''InvalidStateError'')],
          console := console connected_world @
            [(Err, ''[WebSocketClient] Failed to send message:'')]\<rparr>) \<and>
   returns (\<lambda>v. state v = Connected \<and>
              sendMessage (emit 0 no_listeners) (Text ''ping'')
                (Some (JsError ''InvalidStateError'')) v =
                Returned (v\<lparr>events := events v @ [EvError (JsError ''InvalidStateError'')],
                       console := console v @
                         [(Err, ''[WebSocketClient] Failed to send message:'')]\<rparr>))
     (run 0 no_listeners [CallConnect None, SockOpen 0]
        (init MOCK_WEBSOCKET_URL (Some linear_backoff)))"
proof -
  have h1: "state dropped_world \<noteq> Connected"
    by (simp add: dropped_world_fields)
  have h2: "state connected_world = Connected \<and> ws connected_world = Some 0"
    by (simp add: connected_world_fields)
  from h1 send_outside_Connected
    [of dropped_world "emit 0 throw_on_error" "Text ''ping''" None]
  have a: "sendMessage (emit 0 throw_on_error) (Text ''ping'') None dropped_world =
     Returned (dropped_world\<lparr>console := console dropped_world @
            [(Warn, ''[WebSocketClient] Cannot send message. Not connected.'')]\<rparr>)"
    by blast
  from h2 send_outside_Connected
    [of connected_world "emit 0 no_listeners" "Text ''ping''" None 0 0
      "JsError ''InvalidStateError''"]
  have "sendMessage (emit 0 no_listeners) (Text ''ping'')
      (Some (JsError ''InvalidStateError'')) connected_world =
     Returned (connected_world\<lparr>events := events connected_world @
              [EvError (JsError ''InvalidStateError'')],
            console := console connected_world @
              [(Err, ''[WebSocketClient] Failed to send message:'')]\<rparr>)"
    by blast
  then have b: "sendMessage (emit 0 no_listeners) (Text ''ping'')
       (Some (JsError ''InvalidStateError'')) connected_world =
     Returned
       (connected_world\<lparr>events := [EvConnected, EvError (JsError ''InvalidStateError'')],
          console := console connected_world @
            [(Err, ''[WebSocketClient] Failed to send message:'')]\<rparr>)"
    by (simp add: connected_world_fields)
  have "returns (\<lambda>v. state v = Connected \<longrightarrow>
              sendMessage (emit 0 no_listeners) (Text ''ping'')
                (Some (JsError ''InvalidStateError'')) v =
                Returned (v\<lparr>events := events v @ [EvError (JsError ''InvalidStateError'')],
                       console := console v @
                         [(Err, ''[WebSocketClient] Failed to send message:'')]\<rparr>))
     (Returned connected_world)"
    using send_outside_Connected
      [of connected_world "emit 0 no_listeners" "Text ''ping''" None 0 0
        "JsError ''InvalidStateError''"
        "[CallConnect None, SockOpen 0]" MOCK_WEBSOCKET_URL "Some linear_backoff"]
    unfolding run_connected_world by blast
  with h2 have c: "returns (\<lambda>v. state v = Connected \<and>
              sendMessage (emit 0 no_listeners) (Text ''ping'')
                (Some (JsError ''InvalidStateError'')) v =
                Returned (v\<lparr>events := events v @ [EvError (JsError ''InvalidStateError'')],
                       console := console v @
                         [(Err, ''[WebSocketClient] Failed to send message:'')]\<rparr>))
     (run 0 no_listeners [CallConnect None, SockOpen 0]
        (init MOCK_WEBSOCKET_URL (Some linear_backoff)))"
    unfolding run_connected_world returns_Returned by blast
  from h1 h2 a b c show ?thesis by blast
qed

section \<open>Manual connect while a retry is pending\<close>



section \<open>Reconnected and Connected\<close>









section \<open>Giving up after the configured number of retries\<close>

text \<open>
  Claim C3.  With no listener registered and the retry policy of two retries, base
  delay 50 and no growth, a first connection that opened and was dropped, and every
  later attempt failing (by an error event followed by a close event, or by the
  transport constructor throwing): after the drop attempt 1 is announced and a timer of
  delay 50 is pending; after the first failed attempt, attempt 2 is announced and again
  one timer of delay 50 is pending; after the second failed attempt the scheduler gives
  up without emitting anything (the last notification is the one of the failure itself),
  the attempt counter is zero, the reconnect flag is cleared, the state is Idle, no timer
  is pending and no timer can fire any more.  Exactly the attempts 1 and 2 were
  announced.
\<close>

theorem retries_exhausted:
  "returns (\<lambda>w. state w = Reconnecting \<and> timers w = [(1, Finite 50)] \<and>
              reconnectAttempts w = Finite 1 \<and>
              events w = [EvConnected, EvDisconnected (wasClean ev0) (code ev0),
                          EvReconnecting (Finite 1)])
     (run n no_listeners [CallConnect None, SockOpen 0, SockClose 0 ev0]
        (init u (Some \<lparr>retries = Finite 2, delay = Finite 50, increaseDelay = False\<rparr>))) \<and>
   returns (\<lambda>w. state w = Reconnecting \<and> timers w = [(3, Finite 50)] \<and>
              reconnectAttempts w = Finite 2 \<and>
              attempts_announced (events w) = [Finite 1, Finite 2])
     (run n no_listeners [CallConnect None, SockOpen 0, SockClose 0 ev0,
           TimerFire 1 None, SockError 2 er1, SockClose 2 ev1]
        (init u (Some \<lparr>retries = Finite 2, delay = Finite 50, increaseDelay = False\<rparr>))) \<and>
   returns (\<lambda>w. state w = Idle \<and> ws w = None \<and> sockets w = [] \<and> timers w = [] \<and>
              reconnectTimeoutId w = None \<and> reconnectAttempts w = Finite 0 \<and>
              \<not> isReconnectingAttempt w \<and>
              attempts_announced (events w) = [Finite 1, Finite 2] \<and>
              events w =
                [EvConnected, EvDisconnected (wasClean ev0) (code ev0),
                 EvReconnecting (Finite 1),
                 EvError (case er1 of None \<Rightarrow> JsError ''WebSocket error occurred''
                          | Some e \<Rightarrow> e),
                 EvDisconnected (wasClean ev1) (code ev1),
                 EvReconnecting (Finite 2),
                 EvError (case er2 of None \<Rightarrow> JsError ''WebSocket error occurred''
                          | Some e \<Rightarrow> e),
                 EvDisconnected (wasClean ev2) (code ev2)] \<and>
              (\<forall>t thr. step n no_listeners (TimerFire t thr) w = Returned w))
     (run n no_listeners [CallConnect None, SockOpen 0, SockClose 0 ev0,
           TimerFire 1 None, SockError 2 er1, SockClose 2 ev1,
           TimerFire 3 None, SockError 4 er2, SockClose 4 ev2]
        (init u (Some \<lparr>retries = Finite 2, delay = Finite 50, increaseDelay = False\<rparr>))) \<and>
   returns (\<lambda>w. state w = Idle \<and> ws w = None \<and> sockets w = [] \<and> timers w = [] \<and>
              reconnectTimeoutId w = None \<and> reconnectAttempts w = Finite 0 \<and>
              \<not> isReconnectingAttempt w \<and>
              events w =
                [EvConnected, EvDisconnected (wasClean ev0) (code ev0),
                 EvReconnecting (Finite 1), EvError e1, EvReconnecting (Finite 2),
                 EvError e2] \<and>
              (\<forall>t thr. step n no_listeners (TimerFire t thr) w = Returned w))
     (run n no_listeners [CallConnect None, SockOpen 0, SockClose 0 ev0,
           TimerFire 1 (Some e1), TimerFire 2 (Some e2)]
        (init u (Some \<lparr>retries = Finite 2, delay = Finite 50, increaseDelay = False\<rparr>)))"
  by (simp add: model_defs)

section \<open>Manual disconnect while a retry is pending\<close>

text \<open>
  With no listener registered, in every world an execution reaches in state
  Reconnecting the object holds no transport, so the guard of \<open>disconnect()\<close> returns
  early: the call only warns.
\<close>

lemma disconnect_only_warns_while_Reconnecting:
  assumes "run n no_listeners ins (init u opts) = Returned w"
    and "state w = Reconnecting"
  shows "disconnect w =
           Returned (w\<lparr>console := console w @
                  [(Warn, ''[WebSocketClient] Not connected or already disconnecting.'')]\<rparr>)"
proof -
  have "returns consistent (run n no_listeners ins (init u opts))"
    by (rule consistent_run [OF consistent_init])
  with assms(1) have "consistent w" by simp
  with assms(2) have "ws w = None"
    by (simp add: consistent_def)
  then show ?thesis
    by (simp add: disconnect_def console_out_def)
qed

text \<open>
  Claim C1, evaluated on the scenario of the test ``should stop reconnecting if
  disconnect() is called manually'' (five retries, delay 50, no listener that acts): the
  client connects, the connection opens, the server closes it, and \<open>disconnect()\<close> is
  called before the retry timer fires.  The claim asks for state Idle, the timer
  cancelled and no further attempt.  The code leaves the state Reconnecting and the
  timer pending; when the timer then fires a new transport is created, and when that
  transport opens the client is Connected again.
\<close>

theorem disconnect_ignored_while_Reconnecting:
  "returns (\<lambda>w. state w = Reconnecting \<and> ws w = None \<and> timers w = [(1, Finite 50)] \<and>
              events w = [EvConnected, EvDisconnected True 1000, EvReconnecting (Finite 1)])
     (run 0 no_listeners [CallConnect None, SockOpen 0,
           SockClose 0 \<lparr>code = 1000, reason = [], wasClean = True\<rparr>]
        (init ''ws://localhost:1234''
           (Some \<lparr>retries = Finite 5, delay = Finite 50, increaseDelay = False\<rparr>))) \<and>
   returns (\<lambda>w. state w = Reconnecting \<and> timers w = [(1, Finite 50)] \<and>
              reconnectTimeoutId w = Some 1 \<and> closing w = [] \<and>
              events w = [EvConnected, EvDisconnected True 1000, EvReconnecting (Finite 1)])
     (run 0 no_listeners [CallConnect None, SockOpen 0,
           SockClose 0 \<lparr>code = 1000, reason = [], wasClean = True\<rparr>,
           CallDisconnect]
        (init ''ws://localhost:1234''
           (Some \<lparr>retries = Finite 5, delay = Finite 50, increaseDelay = False\<rparr>))) \<and>
   returns (\<lambda>w. state w = Connecting \<and> ws w = Some 2 \<and> sockets w = [2] \<and> timers w = [])
     (run 0 no_listeners [CallConnect None, SockOpen 0,
           SockClose 0 \<lparr>code = 1000, reason = [], wasClean = True\<rparr>,
           CallDisconnect, TimerFire 1 None]
        (init ''ws://localhost:1234''
           (Some \<lparr>retries = Finite 5, delay = Finite 50, increaseDelay = False\<rparr>))) \<and>
   returns (\<lambda>w. state w = Connected \<and>
              events w = [EvConnected, EvDisconnected True 1000, EvReconnecting (Finite 1),
                          EvReconnected, EvConnected])
     (run 0 no_listeners [CallConnect None, SockOpen 0,
           SockClose 0 \<lparr>code = 1000, reason = [], wasClean = True\<rparr>,
           CallDisconnect, TimerFire 1 None, SockOpen 2]
        (init ''ws://localhost:1234''
           (Some \<lparr>retries = Finite 5, delay = Finite 50, increaseDelay = False\<rparr>)))"
  by (simp add: model_defs)

end
